theory Spec2Isabelle
  imports Main "HOL-Library.Word"
begin

unbundle bit_operations_syntax

section \<open>The process and the operating system\<close>

text \<open>
  The native code of the repository is a thin layer over POSIX system calls. The
  calls themselves belong to the operating system and to libc, not to the
  repository, so the model has two parts:
  \<^item> a record \<open>proc\<close>: the state of the process that executes the code (its ids, its
    descriptor table, its environment table, the Java exception pending in the
    calling thread) together with the trace of the calls it has made so far, in
    order;
  \<^item> a record \<open>os\<close>: what the kernel answers to each call whose return value the
    code looks at. Every theorem below holds for all answers unless a hypothesis
    restricts them.
  The effect of a call on the process state is the one POSIX gives it.
  Diagnostic output (the Android log, \<open>std::cerr\<close>, \<open>fflush\<close>) is not traced; what is
  kept of it is where it is undefined: the insertion of a null \<open>char*\<close> into
  \<open>std::cerr\<close>.
\<close>

type_synonym cstr = "string option"
  \<comment> \<open>a \<open>char*\<close>: \<open>None\<close> is the null pointer\<close>

record winsize =
  ws_row :: "16 word"
  ws_col :: "16 word"
  ws_xpixel :: "16 word"
  ws_ypixel :: "16 word"

datatype syscall =
    Open string
  | Fcntl_SETFD_CLOEXEC int
  | Grantpt int
  | Unlockpt int
  | Ptsname int
  | Ptsname_r int
  | Fork
  | Prctl_SET_NAME string
  | Setsid
  | Dup2 int int
  | Close int
  | Execl cstr "cstr list"
  | Mosh_client_main "cstr list"
  | Exit int
  | Underscore_exit int
  | Ioctl_TIOCSWINSZ int winsize
  | Waitpid int int
  | Setenv cstr cstr int
  | Kill int int

text \<open>How a child process ended, as \<open>waitpid\<close> learns it.\<close>

datatype child_status =
    Exited int
  | Signalled int bool
  | Stopped int

text \<open>What a blocking \<open>waitpid(pid, &status, 0)\<close> does.\<close>

datatype wait_result =
    Reaped child_status
  | Wait_failed
  | Blocks_forever

record proc =
  pid :: int
  pgid :: int
  sid :: int
  fds :: "int \<rightharpoonup> string"
  cloexec :: "int set"
  environ :: "string \<rightharpoonup> string"
  pending :: "string option"
  trace :: "syscall list"

record os =
  open_ret :: "string \<Rightarrow> int"
  grantpt_ret :: "int \<Rightarrow> int"
  unlockpt_ret :: "int \<Rightarrow> int"
  ptsname_ret :: "int \<Rightarrow> cstr"
  fork_ret :: int
  child_pid :: int
  execl_fails :: "cstr \<Rightarrow> bool"
  mosh_client_main_ret :: "cstr list \<Rightarrow> int option"
  ioctl_ret :: "int \<Rightarrow> int"
  waitpid_ret :: "int \<Rightarrow> wait_result"
  setenv_enomem :: bool
  kill_ret :: "int \<Rightarrow> int \<Rightarrow> int"

text \<open>
  How a piece of code ends for the process that runs it: it returns to its caller,
  the process terminates with an exit status, the process image is replaced, the
  call never comes back, or the behaviour is undefined (a null pointer handed to
  libc or to JNI, a read or a store outside an array, a read of a variable that
  was never written).
\<close>

datatype 'a outcome =
    Returns 'a
  | Exits int
  | Execs cstr "cstr list"
  | Never_returns
  | Undefined

definition log :: "syscall \<Rightarrow> proc \<Rightarrow> proc" where
  "log c s = s\<lparr>trace := trace s @ [c]\<rparr>"

text \<open>Sequencing: the second step runs only when the first returned to its caller.\<close>

fun then_do ::
    "'a outcome \<times> proc \<Rightarrow> ('a \<Rightarrow> proc \<Rightarrow> 'b outcome \<times> proc) \<Rightarrow> 'b outcome \<times> proc" where
  "then_do (Returns x, s) f = f x s"
| "then_do (Exits n, s) f = (Exits n, s)"
| "then_do (Execs c a, s) f = (Execs c a, s)"
| "then_do (Never_returns, s) f = (Never_returns, s)"
| "then_do (Undefined, s) f = (Undefined, s)"

subsection \<open>System calls\<close>

text \<open>\<open>open(path, O_RDWR)\<close>: a descriptor, or a negative value and no change.\<close>

definition sys_open :: "os \<Rightarrow> string \<Rightarrow> proc \<Rightarrow> int \<times> proc" where
  "sys_open os path s =
     (let fd = open_ret os path
      in (fd, log (Open path)
                (if fd < 0 then s
                 else s\<lparr>fds := (fds s)(fd \<mapsto> path), cloexec := cloexec s - {fd}\<rparr>)))"

text \<open>\<open>fcntl(fd, F_SETFD, FD_CLOEXEC)\<close>; the code ignores the result.\<close>

definition sys_fcntl_cloexec :: "int \<Rightarrow> proc \<Rightarrow> proc" where
  "sys_fcntl_cloexec fd s =
     log (Fcntl_SETFD_CLOEXEC fd)
       (if fds s fd = None then s else s\<lparr>cloexec := insert fd (cloexec s)\<rparr>)"

definition sys_grantpt :: "os \<Rightarrow> int \<Rightarrow> proc \<Rightarrow> int \<times> proc" where
  "sys_grantpt os fd s = (grantpt_ret os fd, log (Grantpt fd) s)"

definition sys_unlockpt :: "os \<Rightarrow> int \<Rightarrow> proc \<Rightarrow> int \<times> proc" where
  "sys_unlockpt os fd s = (unlockpt_ret os fd, log (Unlockpt fd) s)"

text \<open>\<open>ptsname(fd)\<close>: the name of the slave device, or the null pointer.\<close>

definition sys_ptsname :: "os \<Rightarrow> int \<Rightarrow> proc \<Rightarrow> cstr \<times> proc" where
  "sys_ptsname os fd s = (ptsname_ret os fd, log (Ptsname fd) s)"

text \<open>
  \<open>ptsname_r(fd, buf, buflen)\<close>: 0 and the name in \<open>buf\<close>, or a non-zero error
  (also when the name and its terminator do not fit into \<open>buflen\<close> bytes) and \<open>buf\<close>
  untouched. The result is \<open>Some name\<close> for the return value 0 and \<open>None\<close> for
  a non-zero one.
\<close>

definition sys_ptsname_r :: "os \<Rightarrow> int \<Rightarrow> nat \<Rightarrow> proc \<Rightarrow> cstr \<times> proc" where
  "sys_ptsname_r os fd buflen s =
     (case ptsname_ret os fd of
        None \<Rightarrow> (None, log (Ptsname_r fd) s)
      | Some name \<Rightarrow>
          (if length name + 1 \<le> buflen then (Some name, log (Ptsname_r fd) s)
           else (None, log (Ptsname_r fd) s)))"

text \<open>
  \<open>fork()\<close>: \<open>fork_ret\<close> is the value the call returns in the process the model
  follows. When it is 0 the model follows the child: a copy of the parent with
  a process id of its own.
\<close>

definition sys_fork :: "os \<Rightarrow> proc \<Rightarrow> int \<times> proc" where
  "sys_fork os s =
     (let r = fork_ret os
      in (r, log Fork (if r = 0 then s\<lparr>pid := child_pid os\<rparr> else s)))"

definition sys_prctl_set_name :: "string \<Rightarrow> proc \<Rightarrow> proc" where
  "sys_prctl_set_name name s = log (Prctl_SET_NAME name) s"

text \<open>
  \<open>setsid()\<close>: fails for a process group leader; otherwise the process becomes the
  leader of a new session and of a new process group. The code ignores the
  result.
\<close>

definition sys_setsid :: "proc \<Rightarrow> proc" where
  "sys_setsid s =
     log Setsid (if pgid s = pid s then s else s\<lparr>pgid := pid s, sid := pid s\<rparr>)"

text \<open>\<open>dup2(oldfd, newfd)\<close>; the code ignores the result.\<close>

definition sys_dup2 :: "int \<Rightarrow> int \<Rightarrow> proc \<Rightarrow> proc" where
  "sys_dup2 oldfd newfd s =
     log (Dup2 oldfd newfd)
       (case fds s oldfd of
          None \<Rightarrow> s
        | Some f \<Rightarrow>
            (if oldfd = newfd then s
             else s\<lparr>fds := (fds s)(newfd \<mapsto> f), cloexec := cloexec s - {newfd}\<rparr>))"

definition sys_close :: "int \<Rightarrow> proc \<Rightarrow> proc" where
  "sys_close fd s =
     log (Close fd) (s\<lparr>fds := (fds s)(fd := None), cloexec := cloexec s - {fd}\<rparr>)"

text \<open>
  \<open>execl(path, arg..., NULL)\<close>: the argument list ends at the first null pointer.
  The call returns (-1) only when it fails; otherwise the process image is
  replaced, the close-on-exec descriptors are closed and the environment is
  inherited.
\<close>

definition sys_execl :: "os \<Rightarrow> cstr \<Rightarrow> cstr list \<Rightarrow> proc \<Rightarrow> int outcome \<times> proc" where
  "sys_execl os path args s =
     (let argv = takeWhile (\<lambda>a. a \<noteq> None) args
      in if path = None \<or> execl_fails os path
         then (Returns (- 1), log (Execl path argv) s)
         else (Execs path argv,
               log (Execl path argv)
                 (s\<lparr>fds := (\<lambda>fd. if fd \<in> cloexec s then None else fds s fd),
                    cloexec := {}\<rparr>)))"

text \<open>
  \<open>mosh_client_main(argc, argv)\<close>, the entry point of the linked mosh client: it
  returns a value, or it never comes back to its caller.
\<close>

definition call_mosh_client_main :: "os \<Rightarrow> int \<Rightarrow> cstr list \<Rightarrow> proc \<Rightarrow> int outcome \<times> proc" where
  "call_mosh_client_main os argc argv s =
     (case mosh_client_main_ret os argv of
        None \<Rightarrow> (Never_returns, log (Mosh_client_main argv) s)
      | Some r \<Rightarrow> (Returns r, log (Mosh_client_main argv) s))"

text \<open>\<open>exit(n)\<close> and \<open>_exit(n)\<close>: the parent sees the low eight bits of \<open>n\<close>.\<close>

definition sys_exit :: "int \<Rightarrow> proc \<Rightarrow> 'a outcome \<times> proc" where
  "sys_exit n s = (Exits (n AND 0xff), log (Exit n) s)"

definition sys_underscore_exit :: "int \<Rightarrow> proc \<Rightarrow> 'a outcome \<times> proc" where
  "sys_underscore_exit n s = (Exits (n AND 0xff), log (Underscore_exit n) s)"

text \<open>\<open>ioctl(fd, TIOCSWINSZ, &sz)\<close>: (-1) on a descriptor that is not open.\<close>

definition sys_ioctl_TIOCSWINSZ :: "os \<Rightarrow> int \<Rightarrow> winsize \<Rightarrow> proc \<Rightarrow> int \<times> proc" where
  "sys_ioctl_TIOCSWINSZ os fd sz s =
     ((if fds s fd = None then - 1 else ioctl_ret os fd), log (Ioctl_TIOCSWINSZ fd sz) s)"

text \<open>
  \<open>setenv(name, value, overwrite)\<close> of bionic: (-1) and no change for a null or
  empty name, a name with \<open>=\<close> in it, or when memory runs out; otherwise 0 and the
  variable is set (an existing one only when \<open>overwrite\<close> is not 0). A null
  \<open>value\<close> is dereferenced.
\<close>

definition sys_setenv :: "os \<Rightarrow> cstr \<Rightarrow> cstr \<Rightarrow> int \<Rightarrow> proc \<Rightarrow> int outcome \<times> proc" where
  "sys_setenv os name value overwrite s =
     (case name of
        None \<Rightarrow> (Returns (- 1), log (Setenv name value overwrite) s)
      | Some n \<Rightarrow>
          (if n = [] \<or> CHR ''='' \<in> set n
           then (Returns (- 1), log (Setenv name value overwrite) s)
           else (case value of
                   None \<Rightarrow> (Undefined, log (Setenv name value overwrite) s)
                 | Some v \<Rightarrow>
                     (if setenv_enomem os
                      then (Returns (- 1), log (Setenv name value overwrite) s)
                      else if overwrite = 0 \<and> environ s n \<noteq> None
                      then (Returns 0, log (Setenv name value overwrite) s)
                      else (Returns 0,
                            log (Setenv name value overwrite)
                              (s\<lparr>environ := (environ s)(n \<mapsto> v)\<rparr>))))))"

definition sys_kill :: "os \<Rightarrow> int \<Rightarrow> int \<Rightarrow> proc \<Rightarrow> int \<times> proc" where
  "sys_kill os p sig s = (kill_ret os p sig, log (Kill p sig) s)"

subsection \<open>Wait status words\<close>

text \<open>
  The status word the kernel writes for a terminated child, and the macros of
  \<open><sys/wait.h>\<close> (bionic) the code reads it with. The header is not part of the
  repository; the encoding is the Linux one.
\<close>

fun wstatus :: "child_status \<Rightarrow> int" where
  "wstatus (Exited n) = push_bit 8 (n AND 0xff)"
| "wstatus (Signalled sig core) = (sig OR (if core then 0x80 else 0))"
| "wstatus (Stopped sig) = (push_bit 8 sig OR 0x7f)"

definition WTERMSIG :: "int \<Rightarrow> int" where
  "WTERMSIG s = s AND 0x7f"

definition WIFEXITED :: "int \<Rightarrow> bool" where
  "WIFEXITED s = (WTERMSIG s = 0)"

definition WEXITSTATUS :: "int \<Rightarrow> int" where
  "WEXITSTATUS s = drop_bit 8 (s AND 0xff00)"

text \<open>
  \<open>waitpid(p, &status, opts)\<close>: \<open>status\<close> is the content of the caller's variable
  before the call. The kernel writes it only when a child was reaped.
\<close>

definition sys_waitpid :: "os \<Rightarrow> int \<Rightarrow> int \<Rightarrow> int \<Rightarrow> proc \<Rightarrow> int outcome \<times> proc" where
  "sys_waitpid os p status opts s =
     (case waitpid_ret os p of
        Reaped t \<Rightarrow> (Returns (wstatus t), log (Waitpid p opts) s)
      | Wait_failed \<Rightarrow> (Returns status, log (Waitpid p opts) s)
      | Blocks_forever \<Rightarrow> (Never_returns, log (Waitpid p opts) s))"

section \<open>waitFor\<close>

text \<open>
  \<open>Java_org_mosh_MoshClient_waitFor\<close> (org_mosh_MoshClient.cpp, lines 119-128) and
  \<open>Java_com_google_ase_Exec_waitFor\<close> (com_google_ase_Exec.cpp, lines 185-194).
  The local \<open>int status\<close> is declared without an initialiser: its content before
  \<open>waitpid\<close> is the argument \<open>status\<close> of the model.
\<close>

definition Java_org_mosh_MoshClient_waitFor ::
    "os \<Rightarrow> int \<Rightarrow> int \<Rightarrow> proc \<Rightarrow> int outcome \<times> proc" where
  "Java_org_mosh_MoshClient_waitFor os procId status s =
     (case sys_waitpid os procId status 0 s of
        (Returns status', s') \<Rightarrow>
          (let result = 0;
               result = (if WIFEXITED status' then WEXITSTATUS status' else result)
           in (Returns result, s'))
      | (Exits n, s') \<Rightarrow> (Exits n, s')
      | (Execs c a, s') \<Rightarrow> (Execs c a, s')
      | (Never_returns, s') \<Rightarrow> (Never_returns, s')
      | (Undefined, s') \<Rightarrow> (Undefined, s'))"

definition Java_com_google_ase_Exec_waitFor ::
    "os \<Rightarrow> int \<Rightarrow> int \<Rightarrow> proc \<Rightarrow> int outcome \<times> proc" where
  "Java_com_google_ase_Exec_waitFor os procId status s =
     (case sys_waitpid os procId status 0 s of
        (Returns status', s') \<Rightarrow>
          (let result = 0;
               result = (if WIFEXITED status' then WEXITSTATUS status' else result)
           in (Returns result, s'))
      | (Exits n, s') \<Rightarrow> (Exits n, s')
      | (Execs c a, s') \<Rightarrow> (Execs c a, s')
      | (Never_returns, s') \<Rightarrow> (Never_returns, s')
      | (Undefined, s') \<Rightarrow> (Undefined, s'))"

section \<open>The JNI layer\<close>

text \<open>
  What the Java virtual machine answers to the JNI calls whose result the code
  looks at. A \<open>jstring\<close> is \<open>None\<close> (the null reference) or the bytes the virtual
  machine hands out for it; a \<open>java.io.FileDescriptor\<close> object is \<open>None\<close> (null) or
  the value of its field \<open>descriptor\<close>. Of a pending exception the model keeps the
  class name, not the message.
\<close>

type_synonym jstring = "string option"
type_synonym jFileDescriptor = "int option"

record jni =
  get_string_utf_chars_ok :: "string \<Rightarrow> bool"
  new_nothrow_ok :: "string \<Rightarrow> bool"
  ensure_local_capacity_ok :: bool
  get_bytes_throws :: "string \<Rightarrow> bool"
  malloc_ok :: "string \<Rightarrow> bool"
  find_class_ok :: "string \<Rightarrow> bool"
  new_object_ok :: "string \<Rightarrow> bool"
  get_primitive_array_critical_ok :: bool

text \<open>\<open>jniThrowByName\<close> (org_mosh_MoshClient.cpp, lines 25-31) and \<open>JNU_ThrowByName\<close>
  (com_google_ase_Exec.cpp, lines 33-39), the same code. A failed \<open>FindClass\<close>
  leaves a \<open>NoClassDefFoundError\<close> pending.\<close>

definition jniThrowByName :: "jni \<Rightarrow> string \<Rightarrow> proc \<Rightarrow> proc" where
  "jniThrowByName jni name s =
     (if find_class_ok jni name then s\<lparr>pending := Some name\<rparr>
      else s\<lparr>pending := Some ''java/lang/NoClassDefFoundError''\<rparr>)"

definition JNU_ThrowByName :: "jni \<Rightarrow> string \<Rightarrow> proc \<Rightarrow> proc" where
  "JNU_ThrowByName jni name s =
     (if find_class_ok jni name then s\<lparr>pending := Some name\<rparr>
      else s\<lparr>pending := Some ''java/lang/NoClassDefFoundError''\<rparr>)"

text \<open>\<open>jniGetStringNativeChars\<close> (org_mosh_MoshClient.cpp, lines 33-56).\<close>

definition jniGetStringNativeChars :: "jni \<Rightarrow> jstring \<Rightarrow> proc \<Rightarrow> cstr \<times> proc" where
  "jniGetStringNativeChars jni jstr s =
     (case jstr of
        None \<Rightarrow> (None, s)
      | Some nativeString \<Rightarrow>
          (if \<not> get_string_utf_chars_ok jni nativeString then (None, s\<lparr>pending := None\<rparr>)
           else if new_nothrow_ok jni nativeString then (Some nativeString, s)
           else (None, jniThrowByName jni ''java/lang/OutOfMemoryError'' s)))"

text \<open>
  \<open>JNU_GetStringNativeChars\<close> (com_google_ase_Exec.cpp, lines 41-71). The bytes of
  \<open>String.getBytes()\<close> are copied and a zero byte is appended: as a C string the
  result ends at the first zero byte.
\<close>

definition JNU_GetStringNativeChars :: "jni \<Rightarrow> jstring \<Rightarrow> proc \<Rightarrow> cstr \<times> proc" where
  "JNU_GetStringNativeChars jni jstr s =
     (case jstr of
        None \<Rightarrow> (None, s)
      | Some bytes \<Rightarrow>
          (if \<not> ensure_local_capacity_ok jni
           then (None, s\<lparr>pending := Some ''java/lang/OutOfMemoryError''\<rparr>)
           else if get_bytes_throws jni bytes
           then (None, s\<lparr>pending := Some ''java/lang/Throwable''\<rparr>)
           else if \<not> malloc_ok jni bytes
           then (None, JNU_ThrowByName jni ''java/lang/OutOfMemoryError'' s)
           else (Some (takeWhile (\<lambda>c. c \<noteq> CHR 0x00) bytes), s)))"

text \<open>
  \<open>jniGetFDFromFileDescriptor\<close> (org_mosh_MoshClient.cpp, lines 58-63, and
  com_google_ase_Exec.cpp, lines 73-78, the same code). JNI leaves a field access
  through a null class or a null object undefined.
\<close>

definition jniGetFDFromFileDescriptor ::
    "jni \<Rightarrow> jFileDescriptor \<Rightarrow> proc \<Rightarrow> int outcome \<times> proc" where
  "jniGetFDFromFileDescriptor jni fileDescriptor s =
     (if \<not> find_class_ok jni ''java/io/FileDescriptor''
      then (Undefined, s\<lparr>pending := Some ''java/lang/NoClassDefFoundError''\<rparr>)
      else (case fileDescriptor of
              None \<Rightarrow> (Undefined, s)
            | Some descriptor \<Rightarrow> (Returns descriptor, s)))"

section \<open>Spawn\<close>

subsection \<open>create_subprocess (com_google_ase_Exec.cpp, lines 80-125)\<close>

text \<open>
  Lines 86-97, the allocation of the pseudo-terminal: the master descriptor and
  the name of the slave device, or \<open>None\<close> where the code returns (-1). The
  condition of line 93 is evaluated left to right and stops at the first call
  that fails.
\<close>

definition grantpt_unlockpt_ptsname :: "os \<Rightarrow> int \<Rightarrow> proc \<Rightarrow> cstr \<times> proc" where
  "grantpt_unlockpt_ptsname os ptm s =
     (case sys_grantpt os ptm s of (g, s1) \<Rightarrow>
        if g \<noteq> 0 then (None, s1)
        else (case sys_unlockpt os ptm s1 of (u, s2) \<Rightarrow>
          if u \<noteq> 0 then (None, s2)
          else sys_ptsname os ptm s2))"

definition create_subprocess_pty :: "os \<Rightarrow> proc \<Rightarrow> (int \<times> string) option \<times> proc" where
  "create_subprocess_pty os s =
     (case sys_open os ''/dev/ptmx'' s of (ptm, s1) \<Rightarrow>
        if ptm < 0 then (None, s1)
        else
          (let s2 = sys_fcntl_cloexec ptm s1
           in case grantpt_unlockpt_ptsname os ptm s2 of
                (None, s3) \<Rightarrow> (None, s3)
              | (Some devname, s3) \<Rightarrow> (Some (ptm, devname), s3)))"

text \<open>Lines 105-120, the branch \<open>pid == 0\<close>.\<close>

definition create_subprocess_child ::
    "os \<Rightarrow> cstr \<Rightarrow> cstr \<Rightarrow> cstr \<Rightarrow> int \<Rightarrow> string \<Rightarrow> proc \<Rightarrow> 'a outcome \<times> proc" where
  "create_subprocess_child os cmd arg0 arg1 ptm devname s =
     (let s1 = sys_setsid s
      in case sys_open os devname s1 of (pts, s2) \<Rightarrow>
           if pts < 0 then sys_exit (- 1) s2
           else
             (let s3 = sys_dup2 pts 0 s2;
                  s4 = sys_dup2 pts 1 s3;
                  s5 = sys_dup2 pts 2 s4;
                  s6 = sys_close ptm s5
              in then_do (sys_execl os cmd [cmd, arg0, arg1] s6)
                   (\<lambda>_ s7. sys_exit (- 1) s7)))"

text \<open>
  The whole function. \<open>pProcessId\<close> is the content of the caller's \<open>int\<close> on entry;
  the result is the return value together with the content of that \<open>int\<close> on
  return.
\<close>

definition create_subprocess ::
    "os \<Rightarrow> cstr \<Rightarrow> cstr \<Rightarrow> cstr \<Rightarrow> int \<Rightarrow> proc \<Rightarrow> (int \<times> int) outcome \<times> proc" where
  "create_subprocess os cmd arg0 arg1 pProcessId s =
     (case create_subprocess_pty os s of
        (None, s1) \<Rightarrow> (Returns (- 1, pProcessId), s1)
      | (Some (ptm, devname), s1) \<Rightarrow>
          (case sys_fork os s1 of (pid', s2) \<Rightarrow>
             if pid' < 0 then (Returns (- 1, pProcessId), s2)
             else if pid' = 0 then create_subprocess_child os cmd arg0 arg1 ptm devname s2
             else (Returns (ptm, pid'), s2)))"

subsection \<open>create_mosh_client (org_mosh_MoshClient.cpp, lines 135-199)\<close>

text \<open>
  Lines 142-154: no \<open>grantpt\<close> here, and the name of the slave device is copied into
  the 32 bytes of \<open>devname\<close> by \<open>ptsname_r\<close>.
\<close>

definition unlockpt_ptsname_r :: "os \<Rightarrow> int \<Rightarrow> proc \<Rightarrow> cstr \<times> proc" where
  "unlockpt_ptsname_r os ptm s =
     (case sys_unlockpt os ptm s of (u, s1) \<Rightarrow>
        if u \<noteq> 0 then (None, s1)
        else sys_ptsname_r os ptm 32 s1)"

definition create_mosh_client_pty :: "os \<Rightarrow> proc \<Rightarrow> (int \<times> string) option \<times> proc" where
  "create_mosh_client_pty os s =
     (case sys_open os ''/dev/ptmx'' s of (ptm, s1) \<Rightarrow>
        if ptm < 0 then (None, s1)
        else
          (let s2 = sys_fcntl_cloexec ptm s1
           in case unlockpt_ptsname_r os ptm s2 of
                (None, s3) \<Rightarrow> (None, s3)
              | (Some devname, s3) \<Rightarrow> (Some (ptm, devname), s3)))"

text \<open>
  \<open>std::cerr << p\<close> for a \<open>char*\<close> (lines 185 and 187): the stream takes the length
  of the string, so a null pointer is undefined behaviour. The characters
  written are not traced.
\<close>

definition cerr_insert :: "cstr \<Rightarrow> proc \<Rightarrow> unit outcome \<times> proc" where
  "cerr_insert p s = (case p of None \<Rightarrow> (Undefined, s) | Some str \<Rightarrow> (Returns (), s))"

text \<open>
  Lines 162-193, the branch \<open>pid == 0\<close>: the mosh client is not a program that is
  executed but a function that is called, and \<open>_exit(1)\<close> follows its return.
  \<open>ip\<close> and \<open>port\<close> are written to \<open>std::cerr\<close> before the call and after it.
\<close>

definition create_mosh_client_child ::
    "os \<Rightarrow> cstr \<Rightarrow> cstr \<Rightarrow> int \<Rightarrow> string \<Rightarrow> proc \<Rightarrow> 'a outcome \<times> proc" where
  "create_mosh_client_child os ip port ptm devname s =
     (let s0 = sys_prctl_set_name ''MoshClient'' s;
          s1 = sys_setsid s0
      in case sys_open os devname s1 of (pts, s2) \<Rightarrow>
           if pts < 0 then sys_exit (- 1) s2
           else
             (let s3 = sys_dup2 pts 0 s2;
                  s4 = sys_dup2 pts 1 s3;
                  s5 = sys_dup2 pts 2 s4;
                  s6 = sys_close ptm s5;
                  argc = 3;
                  argv = [Some ''mosh-client'', ip, port]
              in then_do (cerr_insert ip s6)
                   (\<lambda>_ s7. then_do (cerr_insert port s7)
                      (\<lambda>_ s8. then_do (call_mosh_client_main os argc argv s8)
                         (\<lambda>_ s9. then_do (cerr_insert ip s9)
                            (\<lambda>_ s10. then_do (cerr_insert port s10)
                               (\<lambda>_ s11. sys_underscore_exit 1 s11)))))))"

text \<open>
  The whole function. \<open>pPtm\<close> and \<open>pProcessId\<close> are the contents of the caller's two
  \<open>int\<close>s on entry; the result is their contents on return.
\<close>

definition create_mosh_client ::
    "os \<Rightarrow> cstr \<Rightarrow> cstr \<Rightarrow> int \<Rightarrow> int \<Rightarrow> proc \<Rightarrow> (int \<times> int) outcome \<times> proc" where
  "create_mosh_client os ip port pPtm pProcessId s =
     (let pPtm = - 1
      in case create_mosh_client_pty os s of
           (None, s1) \<Rightarrow> (Returns (pPtm, pProcessId), s1)
         | (Some (ptm, devname), s1) \<Rightarrow>
             (case sys_fork os s1 of (pid', s2) \<Rightarrow>
                if pid' < 0 then (Returns (pPtm, pProcessId), s2)
                else if pid' = 0 then create_mosh_client_child os ip port ptm devname s2
                else (Returns (ptm, pid'), s2)))"

subsection \<open>The entry points of spawn\<close>

text \<open>
  \<open>Java_com_google_ase_Exec_createSubprocess\<close> (com_google_ase_Exec.cpp, lines
  127-163). The local \<open>int procId\<close> has no initialiser: \<open>procId\<close> is its content
  before the call of \<open>create_subprocess\<close>. The result is the new
  \<open>FileDescriptor\<close> object (or null) and the content of \<open>processIdArray\<close> on return.
\<close>

definition Java_com_google_ase_Exec_createSubprocess ::
    "jni \<Rightarrow> os \<Rightarrow> jstring \<Rightarrow> jstring \<Rightarrow> jstring \<Rightarrow> int list option \<Rightarrow> int \<Rightarrow> proc
       \<Rightarrow> (jFileDescriptor \<times> int list option) outcome \<times> proc" where
  "Java_com_google_ase_Exec_createSubprocess jni os cmd arg0 arg1 processIdArray procId s =
     (case JNU_GetStringNativeChars jni cmd s of (cmd_8, s1) \<Rightarrow>
      case JNU_GetStringNativeChars jni arg0 s1 of (arg0_8, s2) \<Rightarrow>
      case JNU_GetStringNativeChars jni arg1 s2 of (arg1_8, s3) \<Rightarrow>
        then_do (create_subprocess os cmd_8 arg0_8 arg1_8 procId s3)
          (\<lambda>(ptm, procId) s4.
             let processIdArray =
                   (case processIdArray of
                      None \<Rightarrow> None
                    | Some a \<Rightarrow>
                        (let procIdLen = int (length a)
                         in if procIdLen > 0 \<and> get_primitive_array_critical_ok jni
                            then Some (a[0 := procId]) else Some a));
                 result =
                   (if new_object_ok jni ''java/io/FileDescriptor'' then Some ptm else None)
             in (Returns (result, processIdArray), s4)))"

text \<open>
  \<open>Java_org_mosh_MoshClient_forkExec\<close> (org_mosh_MoshClient.cpp, lines 201-249).
  The locals \<open>int procId\<close> and \<open>int ptm\<close> have no initialiser. The thread that runs
  \<open>create_mosh_client\<close> is joined at once, so the call is modelled as a direct one.
  The result is the \<open>android.util.Pair\<close> of the \<open>FileDescriptor\<close>'s descriptor and the
  \<open>Long\<close>'s value, or null.
\<close>

definition Java_org_mosh_MoshClient_forkExec ::
    "jni \<Rightarrow> os \<Rightarrow> jstring \<Rightarrow> jstring \<Rightarrow> int \<Rightarrow> int \<Rightarrow> proc
       \<Rightarrow> (int \<times> int) option outcome \<times> proc" where
  "Java_org_mosh_MoshClient_forkExec jni os arg0 arg1 ptm procId s =
     (case jniGetStringNativeChars jni arg0 s of (arg_ip, s1) \<Rightarrow>
      case jniGetStringNativeChars jni arg1 s1 of (arg_port, s2) \<Rightarrow>
        then_do (create_mosh_client os arg_ip arg_port ptm procId s2)
          (\<lambda>(ptm, procId) s3.
             if \<not> find_class_ok jni ''java/io/FileDescriptor''
             then (Returns None, jniThrowByName jni ''java/lang/Exception'' s3)
             else if \<not> new_object_ok jni ''java/io/FileDescriptor''
             then (Returns None, jniThrowByName jni ''java/lang/Exception'' s3)
             else
               (let fd = ptm; pidValue = procId
                in if \<not> new_object_ok jni ''java/lang/Long''
                   then (Returns None, jniThrowByName jni ''java/lang/Exception'' s3)
                   else if \<not> find_class_ok jni ''android/util/Pair''
                   then (Returns None, jniThrowByName jni ''java/lang/Exception'' s3)
                   else if \<not> new_object_ok jni ''android/util/Pair''
                   then (Returns None, jniThrowByName jni ''java/lang/Exception'' s3)
                   else (Returns (Some (fd, pidValue)), s3))))"

section \<open>Resize\<close>

text \<open>
  \<open>Java_org_mosh_MoshClient_setPtyWindowSize\<close> (org_mosh_MoshClient.cpp, lines
  101-117) and \<open>Java_com_google_ase_Exec_setPtyWindowSize\<close> (com_google_ase_Exec.cpp,
  lines 165-183). Both are \<open>void\<close>; the fields of \<open>struct winsize\<close> are
  \<open>unsigned short\<close>.
\<close>

definition Java_org_mosh_MoshClient_setPtyWindowSize ::
    "jni \<Rightarrow> os \<Rightarrow> jFileDescriptor \<Rightarrow> int \<Rightarrow> int \<Rightarrow> int \<Rightarrow> int \<Rightarrow> proc \<Rightarrow> unit outcome \<times> proc" where
  "Java_org_mosh_MoshClient_setPtyWindowSize jni os fileDescriptor row col xpixel ypixel s =
     then_do (jniGetFDFromFileDescriptor jni fileDescriptor s)
       (\<lambda>fd s1.
          if pending s1 \<noteq> None then (Returns (), s1)
          else
            (let sz = \<lparr>ws_row = word_of_int row, ws_col = word_of_int col,
                       ws_xpixel = word_of_int xpixel, ws_ypixel = word_of_int ypixel\<rparr>
             in case sys_ioctl_TIOCSWINSZ os fd sz s1 of (r, s2) \<Rightarrow> (Returns (), s2)))"

definition Java_com_google_ase_Exec_setPtyWindowSize ::
    "jni \<Rightarrow> os \<Rightarrow> jFileDescriptor \<Rightarrow> int \<Rightarrow> int \<Rightarrow> int \<Rightarrow> int \<Rightarrow> proc \<Rightarrow> unit outcome \<times> proc" where
  "Java_com_google_ase_Exec_setPtyWindowSize jni os fileDescriptor row col xpixel ypixel s =
     then_do (jniGetFDFromFileDescriptor jni fileDescriptor s)
       (\<lambda>fd s1.
          if pending s1 \<noteq> None then (Returns (), s1)
          else
            (let sz = \<lparr>ws_row = word_of_int row, ws_col = word_of_int col,
                       ws_xpixel = word_of_int xpixel, ws_ypixel = word_of_int ypixel\<rparr>
             in case sys_ioctl_TIOCSWINSZ os fd sz s1 of (r, s2) \<Rightarrow> (Returns (), s2)))"

section \<open>Environment and signals\<close>

text \<open>\<open>Java_org_mosh_MoshClient_setenv\<close> (org_mosh_MoshClient.cpp, lines 93-99).\<close>

definition Java_org_mosh_MoshClient_setenv ::
    "jni \<Rightarrow> os \<Rightarrow> jstring \<Rightarrow> jstring \<Rightarrow> proc \<Rightarrow> int outcome \<times> proc" where
  "Java_org_mosh_MoshClient_setenv jni os name value s =
     (case jniGetStringNativeChars jni name s of (name_8, s1) \<Rightarrow>
      case jniGetStringNativeChars jni value s1 of (value_8, s2) \<Rightarrow>
        sys_setenv os name_8 value_8 1 s2)"

text \<open>\<open>Java_org_mosh_MoshClient_kill\<close> (org_mosh_MoshClient.cpp, lines 130-133).\<close>

definition Java_org_mosh_MoshClient_kill :: "os \<Rightarrow> int \<Rightarrow> int \<Rightarrow> proc \<Rightarrow> int \<times> proc" where
  "Java_org_mosh_MoshClient_kill os pid' signal s = sys_kill os pid' signal s"

text \<open>A process state and kernel answers used to run the definitions on.\<close>

definition proc0 :: proc where
  "proc0 = \<lparr>pid = 100, pgid = 100, sid = 100,
            fds = [0 \<mapsto> ''/dev/null'', 1 \<mapsto> ''/dev/null'', 2 \<mapsto> ''/dev/null''],
            cloexec = {}, environ = Map.empty, pending = None, trace = []\<rparr>"

definition os0 :: os where
  "os0 = \<lparr>open_ret = (\<lambda>p. if p = ''/dev/ptmx'' then 7 else 8),
          grantpt_ret = (\<lambda>_. 0), unlockpt_ret = (\<lambda>_. 0),
          ptsname_ret = (\<lambda>_. Some ''/dev/pts/3''),
          fork_ret = 4242, child_pid = 4242,
          execl_fails = (\<lambda>_. False),
          mosh_client_main_ret = (\<lambda>_. Some 0),
          ioctl_ret = (\<lambda>_. 0),
          waitpid_ret = (\<lambda>_. Reaped (Exited 3)),
          setenv_enomem = False,
          kill_ret = (\<lambda>_ _. 0)\<rparr>"

definition jni0 :: jni where
  "jni0 = \<lparr>get_string_utf_chars_ok = (\<lambda>_. True), new_nothrow_ok = (\<lambda>_. True),
           ensure_local_capacity_ok = True, get_bytes_throws = (\<lambda>_. False),
           malloc_ok = (\<lambda>_. True), find_class_ok = (\<lambda>_. True),
           new_object_ok = (\<lambda>_. True), get_primitive_array_critical_ok = True\<rparr>"

text \<open>
  The contract of \<open>waitFor\<close> in the words of the specification: the exit status of a
  process that exited normally, 0 for one that was signalled or stopped. A status
  is well formed when the exit code is a byte and the signal number is one the
  kernel can deliver.
\<close>

fun valid_status :: "child_status \<Rightarrow> bool" where
  "valid_status (Exited n) = (0 \<le> n \<and> n \<le> 255)"
| "valid_status (Signalled sig core) = (1 \<le> sig \<and> sig \<le> 127)"
| "valid_status (Stopped sig) = True"

fun spec_waitFor :: "child_status \<Rightarrow> int" where
  "spec_waitFor (Exited n) = n"
| "spec_waitFor (Signalled sig core) = 0"
| "spec_waitFor (Stopped sig) = 0"

section \<open>Notions used in the statements\<close>

text \<open>The calls a process made between the state \<open>s\<close> and the later state \<open>s'\<close>.\<close>

definition calls_since :: "proc \<Rightarrow> proc \<Rightarrow> syscall list" where
  "calls_since s s' = drop (length (trace s)) (trace s')"

text \<open>
  A spawn fails when a stage of it fails: the opening of \<open>/dev/ptmx\<close>, the granting
  and unlocking and naming of the slave device, or the fork.
\<close>

definition exec_spawn_fails :: "os \<Rightarrow> bool" where
  "exec_spawn_fails os =
     (let ptm = open_ret os ''/dev/ptmx''
      in ptm < 0 \<or> grantpt_ret os ptm \<noteq> 0 \<or> unlockpt_ret os ptm \<noteq> 0 \<or>
         ptsname_ret os ptm = None \<or> fork_ret os < 0)"

definition mosh_spawn_fails :: "os \<Rightarrow> bool" where
  "mosh_spawn_fails os =
     (let ptm = open_ret os ''/dev/ptmx''
      in ptm < 0 \<or> unlockpt_ret os ptm \<noteq> 0 \<or>
         (case ptsname_ret os ptm of None \<Rightarrow> True | Some name \<Rightarrow> 32 \<le> length name) \<or>
         fork_ret os < 0)"


section \<open>East Asian width\<close>

text \<open>
  \<open>Java_org_connectbot_util_EastAsianWidth_measure\<close>
  (org_connectbot_util_EastAsianWidth.c, lines 32-85). ICU is a library the file
  includes: the property lookup \<open>u_getIntPropertyValue(c, UCHAR_EAST_ASIAN_WIDTH)\<close>
  is the parameter \<open>ea\<close> of the model, and \<open>U16_NEXT\<close> with its helpers is ICU's macro
  of \<open>unicode/utf16.h\<close>. The \<open>jint\<close>s are modelled as unbounded integers: for a region
  inside a Java array \<open>start + len\<close> does not overflow.
\<close>

datatype UEastAsianWidth =
    U_EA_NEUTRAL
  | U_EA_AMBIGUOUS
  | U_EA_HALFWIDTH
  | U_EA_FULLWIDTH
  | U_EA_NARROW
  | U_EA_WIDE

definition U16_IS_LEAD :: "int \<Rightarrow> bool" where
  "U16_IS_LEAD c = (c AND 0xfffffc00 = 0xd800)"

definition U16_IS_TRAIL :: "int \<Rightarrow> bool" where
  "U16_IS_TRAIL c = (c AND 0xfffffc00 = 0xdc00)"

definition U16_SURROGATE_OFFSET :: int where
  "U16_SURROGATE_OFFSET = push_bit 10 0xd800 + 0xdc00 - 0x10000"

definition U16_GET_SUPPLEMENTARY :: "int \<Rightarrow> int \<Rightarrow> int" where
  "U16_GET_SUPPLEMENTARY lead trail = push_bit 10 lead + trail - U16_SURROGATE_OFFSET"

text \<open>
  \<open>uBuffer[i]\<close> on the elements of a \<open>jchar\<close> array: a read outside the array is
  undefined in C, \<open>None\<close> here.
\<close>

definition read_jchar :: "16 word list \<Rightarrow> int \<Rightarrow> int option" where
  "read_jchar s i = (if 0 \<le> i \<and> i < int (length s) then Some (uint (s ! nat i)) else None)"

text \<open>\<open>U16_NEXT(s, i, length, c)\<close>: the new values of \<open>i\<close> and \<open>c\<close>.\<close>

definition U16_NEXT :: "16 word list \<Rightarrow> int \<Rightarrow> int \<Rightarrow> (int \<times> int) option" where
  "U16_NEXT s i length' =
     (case read_jchar s i of
        None \<Rightarrow> None
      | Some c \<Rightarrow>
          (let i = i + 1
           in if U16_IS_LEAD c
              then (if i \<noteq> length'
                    then (case read_jchar s i of
                            None \<Rightarrow> None
                          | Some c2 \<Rightarrow>
                              (if U16_IS_TRAIL c2
                               then Some (i + 1, U16_GET_SUPPLEMENTARY c c2)
                               else Some (i, c)))
                    else Some (i, c))
              else Some (i, c)))"

text \<open>Lines 58-75, the \<open>switch\<close>: the byte stored for a width class.\<close>

fun width_attribute :: "bool \<Rightarrow> UEastAsianWidth \<Rightarrow> 8 word" where
  "width_attribute eastAsian U_EA_FULLWIDTH = 1"
| "width_attribute eastAsian U_EA_WIDE = 1"
| "width_attribute eastAsian U_EA_HALFWIDTH = 0"
| "width_attribute eastAsian U_EA_NARROW = 0"
| "width_attribute eastAsian U_EA_NEUTRAL = (if eastAsian then 1 else 0)"
| "width_attribute eastAsian U_EA_AMBIGUOUS = (if eastAsian then 1 else 0)"

text \<open>
  Lines 54-76, the loop. \<open>writes\<close> is the list of the stores \<open>uAttributes[i] = v\<close>
  made so far, in order, each with its index. The result is \<open>None\<close> when the
  loop reads outside \<open>uBuffer\<close>.
\<close>

function measure_loop ::
    "(int \<Rightarrow> UEastAsianWidth) \<Rightarrow> bool \<Rightarrow> 16 word list \<Rightarrow> int \<Rightarrow> int \<Rightarrow> (int \<times> 8 word) list
       \<Rightarrow> (int \<times> 8 word) list option" where
  "measure_loop ea eastAsian uBuffer i end' writes =
     (if i < end'
      then (case U16_NEXT uBuffer i end' of
              None \<Rightarrow> None
            | Some (i', c) \<Rightarrow>
                measure_loop ea eastAsian uBuffer i' end'
                  (writes @ [(i', width_attribute eastAsian (ea c))]))
      else Some writes)"
  by pat_completeness auto
termination
  by (relation "measure (\<lambda>(ea, eastAsian, uBuffer, i, end', writes). nat (end' - i))")
     (auto simp add: U16_NEXT_def read_jchar_def Let_def split: option.splits if_splits)

declare measure_loop.simps [simp del]

text \<open>The stores applied to the \<open>jbyte\<close> array; one outside the array is undefined.\<close>

fun store_all :: "8 word list \<Rightarrow> (int \<times> 8 word) list \<Rightarrow> 8 word list option" where
  "store_all a [] = Some a"
| "store_all a ((i, v) # ws) =
     (if 0 \<le> i \<and> i < int (length a) then store_all (a[nat i := v]) ws else None)"

text \<open>
  The function. \<open>uBuffer\<close> and \<open>uAttributes\<close> are what \<open>GetPrimitiveArrayCritical\<close>
  hands out for \<open>buffer\<close> and \<open>attributes\<close>: the elements of the array, or \<open>None\<close> for
  the null pointer. The result is the error code (\<open>U_ZERO_ERROR\<close> is 0,
  \<open>U_ILLEGAL_ARGUMENT_ERROR\<close> is 1) and the elements of \<open>attributes\<close> on return.
  When \<open>uBuffer\<close> is null the \<open>goto\<close> of line 44 skips the initialiser of \<open>uAttributes\<close>,
  which line 81 then reads.
\<close>

definition Java_org_connectbot_util_EastAsianWidth_measure ::
    "(int \<Rightarrow> UEastAsianWidth) \<Rightarrow> 16 word list option \<Rightarrow> int \<Rightarrow> int \<Rightarrow> 8 word list option \<Rightarrow> bool
       \<Rightarrow> (int \<times> 8 word list option) outcome" where
  "Java_org_connectbot_util_EastAsianWidth_measure ea uBuffer start len uAttributes eastAsian =
     (let end' = start + len; i = start
      in case uBuffer of
           None \<Rightarrow> Undefined
         | Some buf \<Rightarrow>
             (case uAttributes of
                None \<Rightarrow> Returns (1, None)
              | Some attrs \<Rightarrow>
                  (case measure_loop ea eastAsian buf i end' [] of
                     None \<Rightarrow> Undefined
                   | Some writes \<Rightarrow>
                       (case store_all attrs writes of
                          None \<Rightarrow> Undefined
                        | Some attrs' \<Rightarrow> Returns (0, Some attrs')))))"

text \<open>
  The code points of \<open>s\<close> between \<open>i\<close> and \<open>end'\<close>, each with the index at which it
  starts, the index after it and its value.
\<close>

function code_points :: "16 word list \<Rightarrow> int \<Rightarrow> int \<Rightarrow> (int \<times> int \<times> int) list" where
  "code_points s i end' =
     (if i < end'
      then (case U16_NEXT s i end' of
              None \<Rightarrow> []
            | Some (i', c) \<Rightarrow> (i, i', c) # code_points s i' end')
      else [])"
  by pat_completeness auto
termination
  by (relation "measure (\<lambda>(s, i, end'). nat (end' - i))")
     (auto simp add: U16_NEXT_def read_jchar_def Let_def split: option.splits if_splits)

declare code_points.simps [simp del]


text \<open>
  The stores that put the attribute of every code point at the index after the
  code point.
\<close>

definition stores_after ::
    "(int \<Rightarrow> UEastAsianWidth) \<Rightarrow> bool \<Rightarrow> (int \<times> int \<times> int) list \<Rightarrow> (int \<times> 8 word) list" where
  "stores_after ea eastAsian cps =
     map (\<lambda>(b, e, c). (e, width_attribute eastAsian (ea c))) cps"

text \<open>A width lookup to run the definitions on.\<close>

definition ea0 :: "int \<Rightarrow> UEastAsianWidth" where
  "ea0 c = (if c = 0x4E2D \<or> c = 0x1F600 then U_EA_WIDE else U_EA_NARROW)"



section \<open>Lemmas: wait status words and exit codes\<close>

lemma and_0x7f: "(s::int) AND 0x7f = s mod 128"
  using take_bit_eq_mask [of 7 s] by (simp add: mask_numeral take_bit_eq_mod)

lemma and_0xff: "(s::int) AND 0xff = s mod 256"
  using take_bit_eq_mask [of 8 s] by (simp add: mask_numeral take_bit_eq_mod)

lemma WTERMSIG_eq: "WTERMSIG s = s mod 128"
  by (simp add: WTERMSIG_def and_0x7f)

lemma WEXITSTATUS_eq: "WEXITSTATUS s = (s div 256) mod 256"
proof -
  have "drop_bit 8 (s AND 0xff00) = drop_bit 8 s AND drop_bit 8 (0xff00 :: int)"
    by (rule drop_bit_and)
  also have "drop_bit 8 (0xff00 :: int) = 0xff" by (simp add: drop_bit_eq_div)
  finally show ?thesis by (simp add: WEXITSTATUS_def and_0xff drop_bit_eq_div)
qed

lemma wstatus_Exited: "wstatus (Exited n) = (n mod 256) * 256"
  by (simp add: and_0xff push_bit_eq_mult)

lemma WEXITSTATUS_Exited:
  "0 \<le> n \<Longrightarrow> n \<le> 255 \<Longrightarrow> WEXITSTATUS (wstatus (Exited n)) = n"
  by (simp add: WEXITSTATUS_eq wstatus_Exited del: wstatus.simps)

lemma WIFEXITED_Exited: "WIFEXITED (wstatus (Exited n))"
  by (simp add: WIFEXITED_def WTERMSIG_eq wstatus_Exited del: wstatus.simps)

lemma or_mod_128: "(a OR b) mod 128 = (a mod 128) OR ((b::int) mod 128)"
  using take_bit_or [of 7 a b] by (simp add: take_bit_eq_mod)

lemma WTERMSIG_Signalled:
  "1 \<le> sig \<Longrightarrow> sig \<le> 127 \<Longrightarrow> WTERMSIG (wstatus (Signalled sig core)) = sig"
  by (simp add: WTERMSIG_eq or_mod_128)

lemma WTERMSIG_Stopped: "WTERMSIG (wstatus (Stopped sig)) = 0x7f"
  by (simp add: WTERMSIG_eq or_mod_128 push_bit_eq_mult)

lemma WEXITSTATUS_range: "0 \<le> WEXITSTATUS s \<and> WEXITSTATUS s \<le> 255"
  by (simp add: WEXITSTATUS_eq)

lemma WEXITSTATUS_push:
  "0 \<le> n \<Longrightarrow> n \<le> 255 \<Longrightarrow> WIFEXITED (push_bit 8 n) \<and> WEXITSTATUS (push_bit 8 n) = n"
  by (simp add: WEXITSTATUS_eq WIFEXITED_def WTERMSIG_eq push_bit_eq_mult)

lemma decode_wstatus:
  "valid_status t \<Longrightarrow>
   (if WIFEXITED (wstatus t) then WEXITSTATUS (wstatus t) else 0) = spec_waitFor t"
proof (cases t)
  case (Exited n)
  assume "valid_status t"
  with Exited show ?thesis
    using WIFEXITED_Exited [of n] WEXITSTATUS_Exited [of n] by simp
next
  case (Signalled sig core)
  assume "valid_status t"
  with Signalled show ?thesis
    using WTERMSIG_Signalled [of sig core] by (simp add: WIFEXITED_def del: wstatus.simps)
next
  case (Stopped sig)
  then show ?thesis
    using WTERMSIG_Stopped [of sig] by (simp add: WIFEXITED_def del: wstatus.simps)
qed

lemma exit_code_minus_1: "(- 1 :: int) AND 0xff = 255"
  by (simp add: and_0xff)

lemma exit_code_1: "(1 :: int) AND 0xff = 1"
  by (simp add: and_0xff)

section \<open>Lemmas: the effect of the system calls\<close>

lemmas sys_defs = sys_open_def sys_fcntl_cloexec_def sys_grantpt_def sys_unlockpt_def
  sys_ptsname_def sys_ptsname_r_def sys_fork_def sys_prctl_set_name_def sys_setsid_def
  sys_dup2_def sys_close_def sys_execl_def call_mosh_client_main_def sys_exit_def
  sys_underscore_exit_def log_def

lemma sys_open_simps:
  "fst (sys_open os path s) = open_ret os path"
  "trace (snd (sys_open os path s)) = trace s @ [Open path]"
  "pid (snd (sys_open os path s)) = pid s"
  "pgid (snd (sys_open os path s)) = pgid s"
  "sid (snd (sys_open os path s)) = sid s"
  "environ (snd (sys_open os path s)) = environ s"
  "pending (snd (sys_open os path s)) = pending s"
  by (simp_all add: sys_open_def log_def Let_def)

lemma sys_setsid_simps:
  "trace (sys_setsid s) = trace s @ [Setsid]"
  "pid (sys_setsid s) = pid s"
  "sid (sys_setsid s) = (if pgid s = pid s then sid s else pid s)"
  "pgid (sys_setsid s) = pid s"
  "environ (sys_setsid s) = environ s"
  "pending (sys_setsid s) = pending s"
  "fds (sys_setsid s) = fds s"
  "cloexec (sys_setsid s) = cloexec s"
  by (simp_all add: sys_setsid_def log_def)

lemma sys_prctl_simps:
  "trace (sys_prctl_set_name n s) = trace s @ [Prctl_SET_NAME n]"
  "pid (sys_prctl_set_name n s) = pid s"
  "sid (sys_prctl_set_name n s) = sid s"
  "pgid (sys_prctl_set_name n s) = pgid s"
  "environ (sys_prctl_set_name n s) = environ s"
  "pending (sys_prctl_set_name n s) = pending s"
  "fds (sys_prctl_set_name n s) = fds s"
  "cloexec (sys_prctl_set_name n s) = cloexec s"
  by (simp_all add: sys_prctl_set_name_def log_def)

lemma sys_dup2_simps:
  "trace (sys_dup2 a b s) = trace s @ [Dup2 a b]"
  "pid (sys_dup2 a b s) = pid s"
  "sid (sys_dup2 a b s) = sid s"
  "pgid (sys_dup2 a b s) = pgid s"
  "environ (sys_dup2 a b s) = environ s"
  "pending (sys_dup2 a b s) = pending s"
  by (simp_all add: sys_dup2_def log_def split: option.splits)

lemma sys_close_simps:
  "trace (sys_close fd s) = trace s @ [Close fd]"
  "pid (sys_close fd s) = pid s"
  "sid (sys_close fd s) = sid s"
  "pgid (sys_close fd s) = pgid s"
  "environ (sys_close fd s) = environ s"
  "pending (sys_close fd s) = pending s"
  by (simp_all add: sys_close_def log_def)

lemma sys_exit_simps:
  "fst (sys_exit n s) = Exits (n AND 0xff)"
  "trace (snd (sys_exit n s)) = trace s @ [Exit n]"
  "pid (snd (sys_exit n s)) = pid s"
  "sid (snd (sys_exit n s)) = sid s"
  "environ (snd (sys_exit n s)) = environ s"
  "fst (sys_underscore_exit n s) = Exits (n AND 0xff)"
  "trace (snd (sys_underscore_exit n s)) = trace s @ [Underscore_exit n]"
  "pid (snd (sys_underscore_exit n s)) = pid s"
  "sid (snd (sys_underscore_exit n s)) = sid s"
  "environ (snd (sys_underscore_exit n s)) = environ s"
  by (simp_all add: sys_exit_def sys_underscore_exit_def log_def)

lemma sys_execl_simps:
  "fst (sys_execl os path args s) =
     (if path = None \<or> execl_fails os path then Returns (- 1)
      else Execs path (takeWhile (\<lambda>a. a \<noteq> None) args))"
  "trace (snd (sys_execl os path args s)) =
     trace s @ [Execl path (takeWhile (\<lambda>a. a \<noteq> None) args)]"
  "pid (snd (sys_execl os path args s)) = pid s"
  "sid (snd (sys_execl os path args s)) = sid s"
  "environ (snd (sys_execl os path args s)) = environ s"
  by (simp_all add: sys_execl_def log_def Let_def)

lemma call_mosh_client_main_simps:
  "fst (call_mosh_client_main os argc argv s) =
     (case mosh_client_main_ret os argv of None \<Rightarrow> Never_returns | Some r \<Rightarrow> Returns r)"
  "trace (snd (call_mosh_client_main os argc argv s)) = trace s @ [Mosh_client_main argv]"
  "pid (snd (call_mosh_client_main os argc argv s)) = pid s"
  "sid (snd (call_mosh_client_main os argc argv s)) = sid s"
  "environ (snd (call_mosh_client_main os argc argv s)) = environ s"
  by (simp_all add: call_mosh_client_main_def log_def split: option.splits)

lemma then_do_exit:
  "fst (then_do r (\<lambda>_ s. sys_exit n s)) =
     (case fst r of Returns x \<Rightarrow> Exits (n AND 0xff) | Exits m \<Rightarrow> Exits m
      | Execs c a \<Rightarrow> Execs c a | Never_returns \<Rightarrow> Never_returns | Undefined \<Rightarrow> Undefined)"
  "trace (snd (then_do r (\<lambda>_ s. sys_exit n s))) =
     (case fst r of Returns x \<Rightarrow> trace (snd r) @ [Exit n] | _ \<Rightarrow> trace (snd r))"
  "pid (snd (then_do r (\<lambda>_ s. sys_exit n s))) = pid (snd r)"
  "sid (snd (then_do r (\<lambda>_ s. sys_exit n s))) = sid (snd r)"
  "environ (snd (then_do r (\<lambda>_ s. sys_exit n s))) = environ (snd r)"
  by (cases r; cases "fst r"; simp add: sys_exit_def log_def)+

lemma then_do_underscore_exit:
  "fst (then_do r (\<lambda>_ s. sys_underscore_exit n s)) =
     (case fst r of Returns x \<Rightarrow> Exits (n AND 0xff) | Exits m \<Rightarrow> Exits m
      | Execs c a \<Rightarrow> Execs c a | Never_returns \<Rightarrow> Never_returns | Undefined \<Rightarrow> Undefined)"
  "trace (snd (then_do r (\<lambda>_ s. sys_underscore_exit n s))) =
     (case fst r of Returns x \<Rightarrow> trace (snd r) @ [Underscore_exit n] | _ \<Rightarrow> trace (snd r))"
  "pid (snd (then_do r (\<lambda>_ s. sys_underscore_exit n s))) = pid (snd r)"
  "sid (snd (then_do r (\<lambda>_ s. sys_underscore_exit n s))) = sid (snd r)"
  "environ (snd (then_do r (\<lambda>_ s. sys_underscore_exit n s))) = environ (snd r)"
  by (cases r; cases "fst r"; simp add: sys_underscore_exit_def log_def)+

lemmas child_simps = sys_open_simps sys_setsid_simps sys_prctl_simps sys_dup2_simps
  sys_close_simps sys_exit_simps sys_execl_simps call_mosh_client_main_simps
  then_do_exit then_do_underscore_exit exit_code_minus_1 exit_code_1

lemma calls_since_append: "trace s' = trace s @ tr \<Longrightarrow> calls_since s s' = tr"
  by (simp add: calls_since_def)

lemma sys_fork_simps:
  "fst (sys_fork os s) = fork_ret os"
  "trace (snd (sys_fork os s)) = trace s @ [Fork]"
  "pid (snd (sys_fork os s)) = (if fork_ret os = 0 then child_pid os else pid s)"
  "pgid (snd (sys_fork os s)) = pgid s"
  "sid (snd (sys_fork os s)) = sid s"
  "environ (snd (sys_fork os s)) = environ s"
  "pending (snd (sys_fork os s)) = pending s"
  by (simp_all add: sys_fork_def log_def Let_def)

lemma jniGetStringNativeChars_ok:
  assumes "get_string_utf_chars_ok jni str" and "new_nothrow_ok jni str"
  shows "jniGetStringNativeChars jni (Some str) s = (Some str, s)"
  using assms by (simp add: jniGetStringNativeChars_def)

lemma sys_setenv_result:
  "sys_setenv os (Some n) (Some v) 1 s =
     (if n = [] \<or> CHR ''='' \<in> set n \<or> setenv_enomem os
      then (Returns (- 1), log (Setenv (Some n) (Some v) 1) s)
      else (Returns 0, log (Setenv (Some n) (Some v) 1) (s\<lparr>environ := (environ s)(n \<mapsto> v)\<rparr>)))"
  by (simp add: sys_setenv_def)

section \<open>Lemmas: the spawn functions, resize and the environment\<close>

lemma create_subprocess_pty_None:
  "fst (create_subprocess_pty os s) = None \<longleftrightarrow>
     (open_ret os ''/dev/ptmx'' < 0 \<or>
      grantpt_ret os (open_ret os ''/dev/ptmx'') \<noteq> 0 \<or>
      unlockpt_ret os (open_ret os ''/dev/ptmx'') \<noteq> 0 \<or>
      ptsname_ret os (open_ret os ''/dev/ptmx'') = None)"
  by (simp add: create_subprocess_pty_def grantpt_unlockpt_ptsname_def sys_defs Let_def
      split: prod.splits option.splits)

lemma create_subprocess_pty_Some:
  assumes "fst (create_subprocess_pty os s) = Some (ptm, devname)"
  shows "ptm = open_ret os ''/dev/ptmx'' \<and> 0 \<le> ptm \<and> ptsname_ret os ptm = Some devname \<and>
         snd (create_subprocess_pty os s) =
           s\<lparr>fds := (fds s)(ptm \<mapsto> ''/dev/ptmx''), cloexec := insert ptm (cloexec s),
             trace := trace s @ [Open ''/dev/ptmx'', Fcntl_SETFD_CLOEXEC ptm, Grantpt ptm,
                                 Unlockpt ptm, Ptsname ptm]\<rparr>"
  using assms
  by (auto simp add: create_subprocess_pty_def grantpt_unlockpt_ptsname_def sys_defs Let_def
      split: prod.splits option.splits if_splits)

lemma create_mosh_client_pty_None:
  "fst (create_mosh_client_pty os s) = None \<longleftrightarrow>
     (open_ret os ''/dev/ptmx'' < 0 \<or>
      unlockpt_ret os (open_ret os ''/dev/ptmx'') \<noteq> 0 \<or>
      (case ptsname_ret os (open_ret os ''/dev/ptmx'') of
         None \<Rightarrow> True | Some name \<Rightarrow> 32 \<le> length name))"
  by (auto simp add: create_mosh_client_pty_def unlockpt_ptsname_r_def sys_defs Let_def
      split: prod.splits option.splits)

lemma create_mosh_client_pty_Some:
  assumes "fst (create_mosh_client_pty os s) = Some (ptm, devname)"
  shows "ptm = open_ret os ''/dev/ptmx'' \<and> 0 \<le> ptm \<and> ptsname_ret os ptm = Some devname \<and>
         length devname < 32 \<and>
         snd (create_mosh_client_pty os s) =
           s\<lparr>fds := (fds s)(ptm \<mapsto> ''/dev/ptmx''), cloexec := insert ptm (cloexec s),
             trace := trace s @ [Open ''/dev/ptmx'', Fcntl_SETFD_CLOEXEC ptm,
                                 Unlockpt ptm, Ptsname_r ptm]\<rparr>"
  using assms
  by (auto simp add: create_mosh_client_pty_def unlockpt_ptsname_r_def sys_defs Let_def
      split: prod.splits option.splits if_splits)

lemma create_subprocess_fails:
  assumes "exec_spawn_fails os"
  shows "fst (create_subprocess os cmd arg0 arg1 procId s) = Returns (- 1, procId)"
proof (cases "create_subprocess_pty os s")
  case (Pair r s1)
  show ?thesis
  proof (cases r)
    case None
    with Pair show ?thesis by (simp add: create_subprocess_def)
  next
    case (Some a)
    then have "fork_ret os < 0"
      using assms create_subprocess_pty_None [of os s] Pair
      by (auto simp add: exec_spawn_fails_def Let_def)
    with Pair Some show ?thesis
      by (simp add: create_subprocess_def sys_fork_def Let_def split: prod.splits)
  qed
qed

lemma create_mosh_client_fails:
  assumes "mosh_spawn_fails os"
  shows "fst (create_mosh_client os ip port ptm procId s) = Returns (- 1, procId)"
proof (cases "create_mosh_client_pty os s")
  case (Pair r s1)
  show ?thesis
  proof (cases r)
    case None
    with Pair show ?thesis by (simp add: create_mosh_client_def)
  next
    case (Some a)
    then have "fork_ret os < 0"
      using assms create_mosh_client_pty_None [of os s] Pair
      by (auto simp add: mosh_spawn_fails_def Let_def)
    with Pair Some show ?thesis
      by (simp add: create_mosh_client_def sys_fork_def Let_def split: prod.splits)
  qed
qed

lemma create_subprocess_pty_fds:
  assumes "0 \<le> open_ret os ''/dev/ptmx''"
  shows "fds (snd (create_subprocess_pty os s)) =
           (fds s)(open_ret os ''/dev/ptmx'' \<mapsto> ''/dev/ptmx'') \<and>
         Close fd \<notin> set (calls_since s (snd (create_subprocess_pty os s))) \<and>
         Fork \<notin> set (calls_since s (snd (create_subprocess_pty os s)))"
  using assms
  by (auto simp add: create_subprocess_pty_def grantpt_unlockpt_ptsname_def sys_defs Let_def
      calls_since_def split: prod.splits option.splits if_splits)

lemma create_mosh_client_pty_fds:
  assumes "0 \<le> open_ret os ''/dev/ptmx''"
  shows "fds (snd (create_mosh_client_pty os s)) =
           (fds s)(open_ret os ''/dev/ptmx'' \<mapsto> ''/dev/ptmx'') \<and>
         Close fd \<notin> set (calls_since s (snd (create_mosh_client_pty os s))) \<and>
         Fork \<notin> set (calls_since s (snd (create_mosh_client_pty os s)))"
  using assms
  by (auto simp add: create_mosh_client_pty_def unlockpt_ptsname_r_def sys_defs Let_def
      calls_since_def split: prod.splits option.splits if_splits)

lemma create_subprocess_pty_failed:
  "fst (create_subprocess_pty os s) = None \<Longrightarrow>
   create_subprocess os cmd arg0 arg1 procId s =
     (Returns (- 1, procId), snd (create_subprocess_pty os s))"
  by (cases "create_subprocess_pty os s") (simp add: create_subprocess_def)

lemma create_mosh_client_pty_failed:
  "fst (create_mosh_client_pty os s) = None \<Longrightarrow>
   create_mosh_client os ip port ptm procId s =
     (Returns (- 1, procId), snd (create_mosh_client_pty os s))"
  by (cases "create_mosh_client_pty os s") (simp add: create_mosh_client_def)

lemma create_subprocess_child_fst:
  "fst (create_subprocess_child os cmd arg0 arg1 ptm devname s) =
     (if open_ret os devname < 0 then Exits 255
      else if cmd = None \<or> execl_fails os cmd then Exits 255
      else Execs cmd (takeWhile (\<lambda>a. a \<noteq> None) [cmd, arg0, arg1]))"
  by (simp add: create_subprocess_child_def Let_def split_beta child_simps)

lemma create_subprocess_child_trace:
  "trace (snd (create_subprocess_child os cmd arg0 arg1 ptm devname s)) =
     (if open_ret os devname < 0 then trace s @ [Setsid, Open devname, Exit (- 1)]
      else trace s @
           [Setsid, Open devname, Dup2 (open_ret os devname) 0, Dup2 (open_ret os devname) 1,
            Dup2 (open_ret os devname) 2, Close ptm,
            Execl cmd (takeWhile (\<lambda>a. a \<noteq> None) [cmd, arg0, arg1])] @
           (if cmd = None \<or> execl_fails os cmd then [Exit (- 1)] else []))"
  by (simp add: create_subprocess_child_def Let_def split_beta child_simps)

lemma create_subprocess_child_ids:
  "pid (snd (create_subprocess_child os cmd arg0 arg1 ptm devname s)) = pid s"
  "sid (snd (create_subprocess_child os cmd arg0 arg1 ptm devname s)) =
     (if pgid s = pid s then sid s else pid s)"
  "environ (snd (create_subprocess_child os cmd arg0 arg1 ptm devname s)) = environ s"
  by (simp_all add: create_subprocess_child_def Let_def split_beta child_simps)

lemma cerr_insert_simps:
  "cerr_insert None s = (Undefined, s)"
  "cerr_insert (Some str) s = (Returns (), s)"
  by (simp_all add: cerr_insert_def)

lemma create_mosh_client_child_fst:
  "fst (create_mosh_client_child os ip port ptm devname s) =
     (if open_ret os devname < 0 then Exits 255
      else if ip = None \<or> port = None then Undefined
      else (case mosh_client_main_ret os [Some ''mosh-client'', ip, port] of
              None \<Rightarrow> Never_returns | Some r \<Rightarrow> Exits 1))"
  by (cases ip; cases port)
     (simp_all add: create_mosh_client_child_def Let_def split_beta child_simps
        cerr_insert_simps split: option.splits)

lemma create_mosh_client_child_trace:
  "trace (snd (create_mosh_client_child os ip port ptm devname s)) =
     (if open_ret os devname < 0
      then trace s @ [Prctl_SET_NAME ''MoshClient'', Setsid, Open devname, Exit (- 1)]
      else trace s @
           [Prctl_SET_NAME ''MoshClient'', Setsid, Open devname,
            Dup2 (open_ret os devname) 0, Dup2 (open_ret os devname) 1,
            Dup2 (open_ret os devname) 2, Close ptm] @
           (if ip = None \<or> port = None then []
            else Mosh_client_main [Some ''mosh-client'', ip, port] #
                 (case mosh_client_main_ret os [Some ''mosh-client'', ip, port] of
                    None \<Rightarrow> [] | Some r \<Rightarrow> [Underscore_exit 1])))"
  by (cases ip; cases port)
     (simp_all add: create_mosh_client_child_def Let_def split_beta child_simps
        cerr_insert_simps split: option.splits)

lemma create_mosh_client_child_ids:
  "pid (snd (create_mosh_client_child os ip port ptm devname s)) = pid s"
  "sid (snd (create_mosh_client_child os ip port ptm devname s)) =
     (if pgid s = pid s then sid s else pid s)"
  "environ (snd (create_mosh_client_child os ip port ptm devname s)) = environ s"
  by (cases ip; cases port;
      simp add: create_mosh_client_child_def Let_def split_beta child_simps cerr_insert_simps)+

lemma create_subprocess_forked:
  assumes "fst (create_subprocess_pty os s) = Some (ptm, devname)"
  shows "create_subprocess os cmd arg0 arg1 procId s =
           (if fork_ret os < 0
            then (Returns (- 1, procId), snd (sys_fork os (snd (create_subprocess_pty os s))))
            else if fork_ret os = 0
            then create_subprocess_child os cmd arg0 arg1 ptm devname
                   (snd (sys_fork os (snd (create_subprocess_pty os s))))
            else (Returns (ptm, fork_ret os), snd (sys_fork os (snd (create_subprocess_pty os s)))))"
  using assms
  by (cases "create_subprocess_pty os s")
     (simp add: create_subprocess_def split_beta sys_fork_simps)

lemma create_mosh_client_forked:
  assumes "fst (create_mosh_client_pty os s) = Some (ptm, devname)"
  shows "create_mosh_client os ip port pPtm procId s =
           (if fork_ret os < 0
            then (Returns (- 1, procId), snd (sys_fork os (snd (create_mosh_client_pty os s))))
            else if fork_ret os = 0
            then create_mosh_client_child os ip port ptm devname
                   (snd (sys_fork os (snd (create_mosh_client_pty os s))))
            else (Returns (ptm, fork_ret os), snd (sys_fork os (snd (create_mosh_client_pty os s)))))"
  using assms
  by (cases "create_mosh_client_pty os s")
     (simp add: create_mosh_client_def split_beta sys_fork_simps Let_def)

lemma create_subprocess_pty_ok:
  assumes "0 \<le> open_ret os ''/dev/ptmx''"
    and "grantpt_ret os (open_ret os ''/dev/ptmx'') = 0"
    and "unlockpt_ret os (open_ret os ''/dev/ptmx'') = 0"
    and "ptsname_ret os (open_ret os ''/dev/ptmx'') = Some devname"
  shows "fst (create_subprocess_pty os s) = Some (open_ret os ''/dev/ptmx'', devname)"
proof -
  have "fst (create_subprocess_pty os s) \<noteq> None"
    using assms by (simp add: create_subprocess_pty_None)
  then obtain p d where pd: "fst (create_subprocess_pty os s) = Some (p, d)"
    by (cases "fst (create_subprocess_pty os s)") auto
  from create_subprocess_pty_Some [OF pd] assms pd show ?thesis by auto
qed

lemma create_mosh_client_pty_ok:
  assumes "0 \<le> open_ret os ''/dev/ptmx''"
    and "unlockpt_ret os (open_ret os ''/dev/ptmx'') = 0"
    and "ptsname_ret os (open_ret os ''/dev/ptmx'') = Some devname"
    and "length devname < 32"
  shows "fst (create_mosh_client_pty os s) = Some (open_ret os ''/dev/ptmx'', devname)"
proof -
  have "fst (create_mosh_client_pty os s) \<noteq> None"
    using assms by (simp add: create_mosh_client_pty_None)
  then obtain p d where pd: "fst (create_mosh_client_pty os s) = Some (p, d)"
    by (cases "fst (create_mosh_client_pty os s)") auto
  from create_mosh_client_pty_Some [OF pd] assms pd show ?thesis by auto
qed

lemma create_subprocess_pty_state:
  assumes "fst (create_subprocess_pty os s) = Some (ptm, devname)"
  shows "trace (snd (create_subprocess_pty os s)) =
           trace s @ [Open ''/dev/ptmx'', Fcntl_SETFD_CLOEXEC ptm, Grantpt ptm,
                      Unlockpt ptm, Ptsname ptm]"
    and "pid (snd (create_subprocess_pty os s)) = pid s"
    and "pgid (snd (create_subprocess_pty os s)) = pgid s"
    and "sid (snd (create_subprocess_pty os s)) = sid s"
    and "environ (snd (create_subprocess_pty os s)) = environ s"
  using create_subprocess_pty_Some [OF assms] by simp_all

lemma create_mosh_client_pty_state:
  assumes "fst (create_mosh_client_pty os s) = Some (ptm, devname)"
  shows "trace (snd (create_mosh_client_pty os s)) =
           trace s @ [Open ''/dev/ptmx'', Fcntl_SETFD_CLOEXEC ptm, Unlockpt ptm, Ptsname_r ptm]"
    and "pid (snd (create_mosh_client_pty os s)) = pid s"
    and "pgid (snd (create_mosh_client_pty os s)) = pgid s"
    and "sid (snd (create_mosh_client_pty os s)) = sid s"
    and "environ (snd (create_mosh_client_pty os s)) = environ s"
  using create_mosh_client_pty_Some [OF assms] by simp_all

lemma create_subprocess_succeeds:
  assumes "\<not> exec_spawn_fails os" and "0 < fork_ret os"
  shows "fst (create_subprocess os cmd arg0 arg1 procId s) =
           Returns (open_ret os ''/dev/ptmx'', fork_ret os) \<and>
         calls_since s (snd (create_subprocess os cmd arg0 arg1 procId s)) =
           [Open ''/dev/ptmx'', Fcntl_SETFD_CLOEXEC (open_ret os ''/dev/ptmx''),
            Grantpt (open_ret os ''/dev/ptmx''), Unlockpt (open_ret os ''/dev/ptmx''),
            Ptsname (open_ret os ''/dev/ptmx''), Fork]"
proof -
  from assms(1) obtain devname where d: "ptsname_ret os (open_ret os ''/dev/ptmx'') = Some devname"
    by (auto simp add: exec_spawn_fails_def Let_def)
  from assms(1) have o: "0 \<le> open_ret os ''/dev/ptmx''"
    "grantpt_ret os (open_ret os ''/dev/ptmx'') = 0"
    "unlockpt_ret os (open_ret os ''/dev/ptmx'') = 0"
    by (simp_all add: exec_spawn_fails_def Let_def)
  note p = create_subprocess_pty_ok [OF o d, of s]
  note e = create_subprocess_forked [OF p, of cmd arg0 arg1 procId]
  note st = create_subprocess_pty_state [OF p]
  have "trace (snd (create_subprocess os cmd arg0 arg1 procId s)) = trace s @
           [Open ''/dev/ptmx'', Fcntl_SETFD_CLOEXEC (open_ret os ''/dev/ptmx''),
            Grantpt (open_ret os ''/dev/ptmx''), Unlockpt (open_ret os ''/dev/ptmx''),
            Ptsname (open_ret os ''/dev/ptmx''), Fork]"
    using assms(2) by (simp add: e sys_fork_simps st)
  then have "calls_since s (snd (create_subprocess os cmd arg0 arg1 procId s)) =
           [Open ''/dev/ptmx'', Fcntl_SETFD_CLOEXEC (open_ret os ''/dev/ptmx''),
            Grantpt (open_ret os ''/dev/ptmx''), Unlockpt (open_ret os ''/dev/ptmx''),
            Ptsname (open_ret os ''/dev/ptmx''), Fork]"
    by (rule calls_since_append)
  moreover have "fst (create_subprocess os cmd arg0 arg1 procId s) =
           Returns (open_ret os ''/dev/ptmx'', fork_ret os)"
    using assms(2) by (simp add: e)
  ultimately show ?thesis by simp
qed

lemma create_mosh_client_succeeds:
  assumes "\<not> mosh_spawn_fails os" and "0 < fork_ret os"
  shows "fst (create_mosh_client os ip port pPtm procId s) =
           Returns (open_ret os ''/dev/ptmx'', fork_ret os) \<and>
         calls_since s (snd (create_mosh_client os ip port pPtm procId s)) =
           [Open ''/dev/ptmx'', Fcntl_SETFD_CLOEXEC (open_ret os ''/dev/ptmx''),
            Unlockpt (open_ret os ''/dev/ptmx''), Ptsname_r (open_ret os ''/dev/ptmx''), Fork]"
proof -
  from assms(1) obtain devname where d: "ptsname_ret os (open_ret os ''/dev/ptmx'') = Some devname"
    and l: "length devname < 32"
    by (auto simp add: mosh_spawn_fails_def Let_def split: option.splits)
  from assms(1) have o: "0 \<le> open_ret os ''/dev/ptmx''"
    "unlockpt_ret os (open_ret os ''/dev/ptmx'') = 0"
    by (simp_all add: mosh_spawn_fails_def Let_def)
  note p = create_mosh_client_pty_ok [OF o d l, of s]
  note e = create_mosh_client_forked [OF p, of ip port pPtm procId]
  note st = create_mosh_client_pty_state [OF p]
  have "trace (snd (create_mosh_client os ip port pPtm procId s)) = trace s @
           [Open ''/dev/ptmx'', Fcntl_SETFD_CLOEXEC (open_ret os ''/dev/ptmx''),
            Unlockpt (open_ret os ''/dev/ptmx''), Ptsname_r (open_ret os ''/dev/ptmx''), Fork]"
    using assms(2) by (simp add: e sys_fork_simps st)
  then have "calls_since s (snd (create_mosh_client os ip port pPtm procId s)) =
           [Open ''/dev/ptmx'', Fcntl_SETFD_CLOEXEC (open_ret os ''/dev/ptmx''),
            Unlockpt (open_ret os ''/dev/ptmx''), Ptsname_r (open_ret os ''/dev/ptmx''), Fork]"
    by (rule calls_since_append)
  moreover have "fst (create_mosh_client os ip port pPtm procId s) =
           Returns (open_ret os ''/dev/ptmx'', fork_ret os)"
    using assms(2) by (simp add: e)
  ultimately show ?thesis by simp
qed

lemma setPtyWindowSize_result:
  assumes "find_class_ok jni ''java/io/FileDescriptor''" and "pending s = None"
  shows "Java_org_mosh_MoshClient_setPtyWindowSize jni os (Some fd) row col xpixel ypixel s =
           (Returns (),
            log (Ioctl_TIOCSWINSZ fd
                   \<lparr>ws_row = word_of_int row, ws_col = word_of_int col,
                    ws_xpixel = word_of_int xpixel, ws_ypixel = word_of_int ypixel\<rparr>) s)"
    and "Java_com_google_ase_Exec_setPtyWindowSize jni os (Some fd) row col xpixel ypixel s =
           (Returns (),
            log (Ioctl_TIOCSWINSZ fd
                   \<lparr>ws_row = word_of_int row, ws_col = word_of_int col,
                    ws_xpixel = word_of_int xpixel, ws_ypixel = word_of_int ypixel\<rparr>) s)"
  using assms
  by (simp_all add: Java_org_mosh_MoshClient_setPtyWindowSize_def
      Java_com_google_ase_Exec_setPtyWindowSize_def jniGetFDFromFileDescriptor_def
      sys_ioctl_TIOCSWINSZ_def Let_def)

lemma create_subprocess_pty_environ:
  "environ (snd (create_subprocess_pty os s)) = environ s"
  by (auto simp add: create_subprocess_pty_def grantpt_unlockpt_ptsname_def sys_defs Let_def
      split: prod.splits option.splits if_splits)

lemma create_mosh_client_pty_environ:
  "environ (snd (create_mosh_client_pty os s)) = environ s"
  by (auto simp add: create_mosh_client_pty_def unlockpt_ptsname_r_def sys_defs Let_def
      split: prod.splits option.splits if_splits)

lemma create_subprocess_environ:
  "environ (snd (create_subprocess os cmd arg0 arg1 procId s)) = environ s"
proof (cases "fst (create_subprocess_pty os s)")
  case None
  then show ?thesis
    by (simp add: create_subprocess_pty_failed create_subprocess_pty_environ)
next
  case (Some a)
  then obtain ptm devname where "fst (create_subprocess_pty os s) = Some (ptm, devname)"
    by (cases a) simp
  then show ?thesis
    by (simp add: create_subprocess_forked create_subprocess_child_ids sys_fork_simps
        create_subprocess_pty_environ)
qed

lemma create_mosh_client_environ:
  "environ (snd (create_mosh_client os ip port pPtm procId s)) = environ s"
proof (cases "fst (create_mosh_client_pty os s)")
  case None
  then show ?thesis
    by (simp add: create_mosh_client_pty_failed create_mosh_client_pty_environ)
next
  case (Some a)
  then obtain ptm devname where "fst (create_mosh_client_pty os s) = Some (ptm, devname)"
    by (cases a) simp
  then show ?thesis
    by (simp add: create_mosh_client_forked create_mosh_client_child_ids sys_fork_simps
        create_mosh_client_pty_environ)
qed

section \<open>Lemmas: the East Asian width loop\<close>

lemma U16_NEXT_advances:
  assumes "U16_NEXT s i end' = Some (i', c)" and "i < end'"
  shows "i < i' \<and> i' \<le> end'"
  using assms
  by (auto simp add: U16_NEXT_def Let_def split: option.splits if_splits)

lemma U16_NEXT_in_range:
  assumes "0 \<le> i" and "i < end'" and "end' \<le> int (length s)"
  shows "U16_NEXT s i end' \<noteq> None"
  using assms
  by (auto simp add: U16_NEXT_def read_jchar_def Let_def split: option.splits if_splits)

lemma measure_loop_writes:
  assumes "0 \<le> i" and "end' \<le> int (length s)"
  shows "measure_loop ea eastAsian s i end' w =
           Some (w @ stores_after ea eastAsian (code_points s i end'))"
  using assms
proof (induction ea eastAsian s i end' w rule: measure_loop.induct)
  case (1 ea eastAsian uBuffer i end' writes)
  show ?case
  proof (cases "i < end'")
    case False
    then show ?thesis
      by (simp add: measure_loop.simps [of _ _ _ i] code_points.simps [of _ i] stores_after_def)
  next
    case True
    with "1.prems" have "U16_NEXT uBuffer i end' \<noteq> None"
      by (simp add: U16_NEXT_in_range)
    then obtain i' c where n: "U16_NEXT uBuffer i end' = Some (i', c)"
      by (cases "U16_NEXT uBuffer i end'") auto
    from U16_NEXT_advances [OF n True] "1.prems" have "0 \<le> i'" by simp
    from "1.IH" [OF True n refl this "1.prems"(2)] True n
    show ?thesis
      by (simp add: measure_loop.simps [of _ _ _ i] code_points.simps [of _ i] stores_after_def)
  qed
qed

lemma code_points_step:
  "i < end' \<Longrightarrow> U16_NEXT s i end' = Some (i', c) \<Longrightarrow>
   code_points s i end' = (i, i', c) # code_points s i' end'"
  by (simp add: code_points.simps [of s i])

lemma code_points_done: "\<not> i < end' \<Longrightarrow> code_points s i end' = []"
  by (simp add: code_points.simps [of s i])

lemma code_points_bounds:
  "(b, e, c) \<in> set (code_points s i end') \<Longrightarrow> i \<le> b \<and> b < e \<and> e \<le> end'"
proof (induction s i end' rule: code_points.induct)
  case (1 s i end')
  show ?case
  proof (cases "i < end'")
    case False
    with "1.prems" show ?thesis by (simp add: code_points_done)
  next
    case True
    show ?thesis
    proof (cases "U16_NEXT s i end'")
      case None
      with True "1.prems" show ?thesis by (simp add: code_points.simps [of s i])
    next
      case (Some a)
      then obtain i' c' where n: "U16_NEXT s i end' = Some (i', c')" by (cases a) auto
      note adv = U16_NEXT_advances [OF n True]
      from "1.prems" have "(b, e, c) = (i, i', c') \<or> (b, e, c) \<in> set (code_points s i' end')"
        by (simp add: code_points_step [OF True n])
      then show ?thesis
      proof
        assume "(b, e, c) = (i, i', c')"
        with adv show ?thesis by simp
      next
        assume "(b, e, c) \<in> set (code_points s i' end')"
        from "1.IH" [OF True n refl this] adv show ?thesis by simp
      qed
    qed
  qed
qed

lemma code_points_last:
  assumes "0 \<le> i" and "i < end'" and "end' \<le> int (length s)"
  shows "code_points s i end' \<noteq> [] \<and> fst (snd (last (code_points s i end'))) = end'"
  using assms
proof (induction s i end' rule: code_points.induct)
  case (1 s i end')
  from "1.prems" have "U16_NEXT s i end' \<noteq> None"
    by (simp add: U16_NEXT_in_range)
  then obtain i' c where n: "U16_NEXT s i end' = Some (i', c)"
    by (cases "U16_NEXT s i end'") auto
  note adv = U16_NEXT_advances [OF n "1.prems"(2)]
  note e = code_points_step [OF "1.prems"(2) n]
  show ?case
  proof (cases "i' < end'")
    case True
    from "1.IH" [OF "1.prems"(2) n refl _ True "1.prems"(3)] adv "1.prems"(1)
    have "code_points s i' end' \<noteq> [] \<and> fst (snd (last (code_points s i' end'))) = end'"
      by simp
    then show ?thesis by (simp add: e)
  next
    case False
    with adv have "i' = end'" by simp
    then have "code_points s i' end' = []" by (simp add: code_points_done)
    with \<open>i' = end'\<close> show ?thesis by (simp add: e)
  qed
qed

lemma code_points_hd:
  assumes "0 \<le> i" and "i < end'" and "end' \<le> int (length s)"
  shows "fst (hd (code_points s i end')) = i"
proof -
  from assms have "U16_NEXT s i end' \<noteq> None"
    by (simp add: U16_NEXT_in_range)
  then obtain i' c where n: "U16_NEXT s i end' = Some (i', c)"
    by (cases "U16_NEXT s i end'") auto
  show ?thesis by (simp add: code_points_step [OF assms(2) n])
qed

lemma store_all_out_of_range:
  "(i, v) \<in> set ws \<Longrightarrow> \<not> (0 \<le> i \<and> i < int (length a)) \<Longrightarrow> store_all a ws = None"
proof (induction ws arbitrary: a)
  case Nil
  then show ?case by simp
next
  case (Cons w ws)
  obtain j u where w: "w = (j, u)" by (cases w)
  show ?case
  proof (cases "(i, v) = w")
    case True
    with Cons.prems w show ?thesis by auto
  next
    case False
    with Cons.prems have "(i, v) \<in> set ws" by simp
    from Cons.IH [OF this, of "a[nat j := u]"] Cons.prems(2) w show ?thesis by simp
  qed
qed

lemma code_points_example:
  "code_points [0x41, 0xD83D, 0xDE00, 0x4E2D] 0 4 =
     [(0, 1, 0x41), (1, 3, 0x1F600), (3, 4, 0x4E2D)]"
  by (simp add: code_points.simps U16_NEXT_def read_jchar_def U16_IS_LEAD_def U16_IS_TRAIL_def
      U16_GET_SUPPLEMENTARY_def U16_SURROGATE_OFFSET_def Let_def)

section \<open>Spawn: what a failure delivers\<close>

text \<open>
  C1. When a spawn fails at any stage, the handle that reaches the caller is (-1),
  but the process id is not a failure value: neither \<open>create_subprocess\<close> nor
  \<open>create_mosh_client\<close> writes it, so the caller's uninitialised \<open>procId\<close> is handed
  on as it was, into \<open>processIdArray[0]\<close> and into the \<open>Long\<close> of the pair. A
  spawn that succeeds opens \<open>/dev/ptmx\<close> once and forks once, and in the parent
  yields that descriptor together with the process id \<open>fork\<close> returned.
\<close>

theorem failed_spawn_pid_unwritten:
  "(exec_spawn_fails os \<longrightarrow>
      fst (create_subprocess os cmd arg0 arg1 procId s) = Returns (- 1, procId) \<and>
      fst (Java_com_google_ase_Exec_createSubprocess jni os jcmd jarg0 jarg1 (Some a) procId s) =
        Returns (if new_object_ok jni ''java/io/FileDescriptor'' then Some (- 1) else None,
                 Some (if 0 < length a \<and> get_primitive_array_critical_ok jni
                       then a[0 := procId] else a))) \<and>
   (mosh_spawn_fails os \<longrightarrow>
      fst (create_mosh_client os ip port ptm procId s) = Returns (- 1, procId) \<and>
      ((\<forall>c. find_class_ok jni c \<and> new_object_ok jni c) \<longrightarrow>
       fst (Java_org_mosh_MoshClient_forkExec jni os jip jport ptm procId s) =
         Returns (Some (- 1, procId)))) \<and>
   (\<not> exec_spawn_fails os \<and> 0 < fork_ret os \<longrightarrow>
      fst (create_subprocess os cmd arg0 arg1 procId s) =
        Returns (open_ret os ''/dev/ptmx'', fork_ret os) \<and>
      calls_since s (snd (create_subprocess os cmd arg0 arg1 procId s)) =
        [Open ''/dev/ptmx'', Fcntl_SETFD_CLOEXEC (open_ret os ''/dev/ptmx''),
         Grantpt (open_ret os ''/dev/ptmx''), Unlockpt (open_ret os ''/dev/ptmx''),
         Ptsname (open_ret os ''/dev/ptmx''), Fork]) \<and>
   (\<not> mosh_spawn_fails os \<and> 0 < fork_ret os \<longrightarrow>
      fst (create_mosh_client os ip port ptm procId s) =
        Returns (open_ret os ''/dev/ptmx'', fork_ret os) \<and>
      calls_since s (snd (create_mosh_client os ip port ptm procId s)) =
        [Open ''/dev/ptmx'', Fcntl_SETFD_CLOEXEC (open_ret os ''/dev/ptmx''),
         Unlockpt (open_ret os ''/dev/ptmx''), Ptsname_r (open_ret os ''/dev/ptmx''), Fork])"
proof (intro conjI impI; (elim conjE)?)
  assume f: "exec_spawn_fails os"
  show "fst (create_subprocess os cmd arg0 arg1 procId s) = Returns (- 1, procId)"
    using f by (rule create_subprocess_fails)
  show "fst (Java_com_google_ase_Exec_createSubprocess jni os jcmd jarg0 jarg1 (Some a) procId s) =
        Returns (if new_object_ok jni ''java/io/FileDescriptor'' then Some (- 1) else None,
                 Some (if 0 < length a \<and> get_primitive_array_critical_ok jni
                       then a[0 := procId] else a))"
    unfolding Java_com_google_ase_Exec_createSubprocess_def
    apply (simp split: prod.splits)
    apply (intro allI impI)
    subgoal for c1 s1 c2 s2 c3 s3
      using create_subprocess_fails [OF f, of c1 c2 c3 procId s3]
      by (cases "create_subprocess os c1 c2 c3 procId s3") (simp add: Let_def)
    done
next
  assume f: "mosh_spawn_fails os"
  show "fst (create_mosh_client os ip port ptm procId s) = Returns (- 1, procId)"
    using f by (rule create_mosh_client_fails)
  assume j: "\<forall>c. find_class_ok jni c \<and> new_object_ok jni c"
  show "fst (Java_org_mosh_MoshClient_forkExec jni os jip jport ptm procId s) =
         Returns (Some (- 1, procId))"
    unfolding Java_org_mosh_MoshClient_forkExec_def
    apply (simp split: prod.splits)
    apply (intro allI impI)
    subgoal for c1 s1 c2 s2
      using create_mosh_client_fails [OF f, of c1 c2 ptm procId s2] j
      by (cases "create_mosh_client os c1 c2 ptm procId s2") (simp add: Let_def)
    done
next
  assume ok: "\<not> exec_spawn_fails os" "0 < fork_ret os"
  note t = create_subprocess_succeeds [OF ok, of cmd arg0 arg1 procId s]
  show "fst (create_subprocess os cmd arg0 arg1 procId s) =
        Returns (open_ret os ''/dev/ptmx'', fork_ret os)"
    using t by simp
  show "calls_since s (snd (create_subprocess os cmd arg0 arg1 procId s)) =
        [Open ''/dev/ptmx'', Fcntl_SETFD_CLOEXEC (open_ret os ''/dev/ptmx''),
         Grantpt (open_ret os ''/dev/ptmx''), Unlockpt (open_ret os ''/dev/ptmx''),
         Ptsname (open_ret os ''/dev/ptmx''), Fork]"
    using t by simp
next
  assume ok: "\<not> mosh_spawn_fails os" "0 < fork_ret os"
  note t = create_mosh_client_succeeds [OF ok, of ip port ptm procId s]
  show "fst (create_mosh_client os ip port ptm procId s) =
        Returns (open_ret os ''/dev/ptmx'', fork_ret os)"
    using t by simp
  show "calls_since s (snd (create_mosh_client os ip port ptm procId s)) =
        [Open ''/dev/ptmx'', Fcntl_SETFD_CLOEXEC (open_ret os ''/dev/ptmx''),
         Unlockpt (open_ret os ''/dev/ptmx''), Ptsname_r (open_ret os ''/dev/ptmx''), Fork]"
    using t by simp
qed

theorem failed_spawn_pid_unwritten_witness:
  "exec_spawn_fails (os0\<lparr>open_ret := (\<lambda>_. - 1)\<rparr>) \<and>
   mosh_spawn_fails (os0\<lparr>fork_ret := - 1\<rparr>) \<and>
   fst (Java_com_google_ase_Exec_createSubprocess jni0 (os0\<lparr>open_ret := (\<lambda>_. - 1)\<rparr>)
          (Some ''/system/bin/sh'') (Some ''-'') None (Some [0]) 4711 proc0) =
     Returns (Some (- 1), Some [4711]) \<and>
   fst (Java_org_mosh_MoshClient_forkExec jni0 (os0\<lparr>fork_ret := - 1\<rparr>)
          (Some ''10.0.0.1'') (Some ''60001'') 0 4711 proc0) =
     Returns (Some (- 1, 4711)) \<and>
   fst (create_subprocess os0 (Some ''/system/bin/sh'') (Some ''-'') None 4711 proc0) =
     Returns (7, 4242)"
proof -
  have ok: "\<not> exec_spawn_fails os0 \<and> 0 < fork_ret os0"
    by (simp add: exec_spawn_fails_def os0_def)
  have c: "fst (create_subprocess os0 (Some ''/system/bin/sh'') (Some ''-'') None 4711 proc0) =
     Returns (7, 4242)"
    using ok failed_spawn_pid_unwritten [of os0 "Some ''/system/bin/sh''" "Some ''-''" None 4711
      proc0 jni0 None None None "[0]" None None 0 None None]
    by (simp add: os0_def)
  have e: "exec_spawn_fails (os0\<lparr>open_ret := (\<lambda>_. - 1)\<rparr>)"
    by (simp add: exec_spawn_fails_def os0_def)
  have m: "mosh_spawn_fails (os0\<lparr>fork_ret := - 1\<rparr>)"
    by (simp add: mosh_spawn_fails_def os0_def)
  have j: "\<forall>c. find_class_ok jni0 c \<and> new_object_ok jni0 c"
    by (simp add: jni0_def)
  note t1 = failed_spawn_pid_unwritten [of "os0\<lparr>open_ret := (\<lambda>_. - 1)\<rparr>" None None None 4711
      proc0 jni0 "Some ''/system/bin/sh''" "Some ''-''" None "[0]" None None 0 None None]
  note t2 = failed_spawn_pid_unwritten [of "os0\<lparr>fork_ret := - 1\<rparr>" None None None 4711
      proc0 jni0 None None None "[0]" None None 0 "Some ''10.0.0.1''" "Some ''60001''"]
  from t1 e have a: "fst (Java_com_google_ase_Exec_createSubprocess jni0
          (os0\<lparr>open_ret := (\<lambda>_. - 1)\<rparr>)
          (Some ''/system/bin/sh'') (Some ''-'') None (Some [0]) 4711 proc0) =
     Returns (Some (- 1), Some [4711])"
    by (simp add: jni0_def)
  from t2 m j have b: "fst (Java_org_mosh_MoshClient_forkExec jni0 (os0\<lparr>fork_ret := - 1\<rparr>)
          (Some ''10.0.0.1'') (Some ''60001'') 0 4711 proc0) =
     Returns (Some (- 1, 4711))"
    by blast
  show ?thesis using e m a b c by simp
qed

section \<open>waitFor: the exit status\<close>

text \<open>
  C2. When the kernel reaps the process \<open>procId\<close>, both \<open>waitFor\<close> functions make one
  blocking \<open>waitpid\<close> call (options 0) and return the exit status \<open>N\<close> (0 to 255) of a
  process that exited normally, and 0 for a process that was signalled or stopped.
  While the process does not terminate the call does not return.
\<close>

theorem waitFor_exit_status:
  "(waitpid_ret os procId = Reaped t \<and> valid_status t \<longrightarrow>
      Java_org_mosh_MoshClient_waitFor os procId status s =
        (Returns (spec_waitFor t), log (Waitpid procId 0) s) \<and>
      Java_com_google_ase_Exec_waitFor os procId status s =
        (Returns (spec_waitFor t), log (Waitpid procId 0) s)) \<and>
   (waitpid_ret os procId = Blocks_forever \<longrightarrow>
      fst (Java_org_mosh_MoshClient_waitFor os procId status s) = Never_returns \<and>
      fst (Java_com_google_ase_Exec_waitFor os procId status s) = Never_returns)"
  using decode_wstatus [of t]
  by (simp add: Java_org_mosh_MoshClient_waitFor_def Java_com_google_ase_Exec_waitFor_def
      sys_waitpid_def del: wstatus.simps)

theorem waitFor_exit_status_witness:
  "Java_org_mosh_MoshClient_waitFor os0 4242 77 proc0 =
     (Returns 3, log (Waitpid 4242 0) proc0) \<and>
   Java_com_google_ase_Exec_waitFor
     (os0\<lparr>waitpid_ret := (\<lambda>_. Reaped (Signalled 9 False))\<rparr>) 4242 77 proc0 =
     (Returns 0, log (Waitpid 4242 0) proc0) \<and>
   fst (Java_com_google_ase_Exec_waitFor
     (os0\<lparr>waitpid_ret := (\<lambda>_. Blocks_forever)\<rparr>) 4242 77 proc0) = Never_returns"
  using waitFor_exit_status [of os0 4242 "Exited 3" 77 proc0]
    waitFor_exit_status [of "os0\<lparr>waitpid_ret := (\<lambda>_. Reaped (Signalled 9 False))\<rparr>"
      4242 "Signalled 9 False" 77 proc0]
    waitFor_exit_status [of "os0\<lparr>waitpid_ret := (\<lambda>_. Blocks_forever)\<rparr>"
      4242 "Exited 0" 77 proc0]
  by (simp add: os0_def)

section \<open>Spawn: the child never returns\<close>

text \<open>
  C3. In the process in which \<open>fork\<close> returned 0, once the pseudo-terminal was
  allocated, neither spawn function returns to its caller. When the slave device
  cannot be opened, or (in \<open>create_subprocess\<close>) \<open>execl\<close> fails, the last call of the
  child is \<open>exit(-1)\<close> and its exit status is 255; in \<open>create_mosh_client\<close> the
  return of \<open>mosh_client_main\<close> is followed by \<open>_exit(1)\<close>, exit status 1. For
  \<open>create_mosh_client\<close> this is the behaviour for an \<open>ip\<close> and a \<open>port\<close> that are not
  null: with the slave device open, a null one is written to \<open>std::cerr\<close>, which
  is undefined.
\<close>

theorem child_failure_is_terminal:
  assumes "fork_ret os = 0"
    and "0 \<le> open_ret os ''/dev/ptmx''"
    and "unlockpt_ret os (open_ret os ''/dev/ptmx'') = 0"
    and "ptsname_ret os (open_ret os ''/dev/ptmx'') = Some devname"
  shows
    "(grantpt_ret os (open_ret os ''/dev/ptmx'') = 0 \<longrightarrow>
        (\<forall>x. fst (create_subprocess os cmd arg0 arg1 procId s) \<noteq> Returns x) \<and>
        (open_ret os devname < 0 \<or> cmd = None \<or> execl_fails os cmd \<longrightarrow>
           fst (create_subprocess os cmd arg0 arg1 procId s) = Exits 255 \<and>
           last (trace (snd (create_subprocess os cmd arg0 arg1 procId s))) = Exit (- 1))) \<and>
     (length devname < 32 \<longrightarrow>
        (open_ret os devname < 0 \<longrightarrow>
           fst (create_mosh_client os ip port pPtm procId s) = Exits 255 \<and>
           last (trace (snd (create_mosh_client os ip port pPtm procId s))) = Exit (- 1)) \<and>
        (0 \<le> open_ret os devname \<and> (ip = None \<or> port = None) \<longrightarrow>
           fst (create_mosh_client os ip port pPtm procId s) = Undefined) \<and>
        (ip \<noteq> None \<and> port \<noteq> None \<longrightarrow>
           (\<forall>x. fst (create_mosh_client os ip port pPtm procId s) \<noteq> Returns x)) \<and>
        (ip \<noteq> None \<and> port \<noteq> None \<and> 0 \<le> open_ret os devname \<and>
         mosh_client_main_ret os [Some ''mosh-client'', ip, port] = Some r \<longrightarrow>
           fst (create_mosh_client os ip port pPtm procId s) = Exits 1 \<and>
           last (trace (snd (create_mosh_client os ip port pPtm procId s))) = Underscore_exit 1))"
proof (intro conjI impI)
  assume g: "grantpt_ret os (open_ret os ''/dev/ptmx'') = 0"
  note p = create_subprocess_pty_ok [OF assms(2) g assms(3) assms(4), of s]
  note e = create_subprocess_forked [OF p, of cmd arg0 arg1 procId]
  show "\<forall>x. fst (create_subprocess os cmd arg0 arg1 procId s) \<noteq> Returns x"
    using assms(1) by (simp add: e create_subprocess_child_fst)
  assume "open_ret os devname < 0 \<or> cmd = None \<or> execl_fails os cmd"
  then show "fst (create_subprocess os cmd arg0 arg1 procId s) = Exits 255"
    and "last (trace (snd (create_subprocess os cmd arg0 arg1 procId s))) = Exit (- 1)"
    using assms(1) by (auto simp add: e create_subprocess_child_fst create_subprocess_child_trace)
next
  assume l: "length devname < 32"
  note p = create_mosh_client_pty_ok [OF assms(2) assms(3) assms(4) l, of s]
  note e = create_mosh_client_forked [OF p, of ip port pPtm procId]
  {
    assume "open_ret os devname < 0"
    then show "fst (create_mosh_client os ip port pPtm procId s) = Exits 255"
      and "last (trace (snd (create_mosh_client os ip port pPtm procId s))) = Exit (- 1)"
      using assms(1) by (simp_all add: e create_mosh_client_child_fst create_mosh_client_child_trace)
  }
  {
    assume "0 \<le> open_ret os devname \<and> (ip = None \<or> port = None)"
    then show "fst (create_mosh_client os ip port pPtm procId s) = Undefined"
      using assms(1) by (auto simp add: e create_mosh_client_child_fst)
  }
  {
    assume "ip \<noteq> None \<and> port \<noteq> None"
    then show "\<forall>x. fst (create_mosh_client os ip port pPtm procId s) \<noteq> Returns x"
      using assms(1) by (simp add: e create_mosh_client_child_fst split: option.splits)
  }
  {
    assume "ip \<noteq> None \<and> port \<noteq> None \<and> 0 \<le> open_ret os devname \<and>
         mosh_client_main_ret os [Some ''mosh-client'', ip, port] = Some r"
    then show "fst (create_mosh_client os ip port pPtm procId s) = Exits 1"
      and "last (trace (snd (create_mosh_client os ip port pPtm procId s))) = Underscore_exit 1"
      using assms(1) by (simp_all add: e create_mosh_client_child_fst create_mosh_client_child_trace)
  }
qed

theorem child_failure_is_terminal_witness:
  "fst (create_subprocess (os0\<lparr>fork_ret := 0, open_ret := (\<lambda>p. if p = ''/dev/ptmx'' then 7 else - 1)\<rparr>)
          (Some ''/system/bin/sh'') (Some ''-'') None 5 proc0) = Exits 255 \<and>
   fst (create_subprocess (os0\<lparr>fork_ret := 0, execl_fails := (\<lambda>_. True)\<rparr>)
          (Some ''/system/bin/sh'') (Some ''-'') None 5 proc0) = Exits 255 \<and>
   last (trace (snd (create_subprocess (os0\<lparr>fork_ret := 0, execl_fails := (\<lambda>_. True)\<rparr>)
          (Some ''/system/bin/sh'') (Some ''-'') None 5 proc0))) = Exit (- 1) \<and>
   fst (create_mosh_client (os0\<lparr>fork_ret := 0\<rparr>)
          (Some ''10.0.0.1'') (Some ''60001'') 0 5 proc0) = Exits 1 \<and>
   fst (create_mosh_client (os0\<lparr>fork_ret := 0\<rparr>)
          None (Some ''60001'') 0 5 proc0) = Undefined"
proof -
  let ?os1 = "os0\<lparr>fork_ret := 0, open_ret := (\<lambda>p. if p = ''/dev/ptmx'' then 7 else - 1)\<rparr>"
  let ?os2 = "os0\<lparr>fork_ret := 0, execl_fails := (\<lambda>_. True)\<rparr>"
  let ?os3 = "os0\<lparr>fork_ret := 0\<rparr>"
  have h1: "fork_ret ?os1 = 0" "0 \<le> open_ret ?os1 ''/dev/ptmx''"
    "unlockpt_ret ?os1 (open_ret ?os1 ''/dev/ptmx'') = 0"
    "ptsname_ret ?os1 (open_ret ?os1 ''/dev/ptmx'') = Some ''/dev/pts/3''"
    by (simp_all add: os0_def)
  have h2: "fork_ret ?os2 = 0" "0 \<le> open_ret ?os2 ''/dev/ptmx''"
    "unlockpt_ret ?os2 (open_ret ?os2 ''/dev/ptmx'') = 0"
    "ptsname_ret ?os2 (open_ret ?os2 ''/dev/ptmx'') = Some ''/dev/pts/3''"
    by (simp_all add: os0_def)
  have h3: "fork_ret ?os3 = 0" "0 \<le> open_ret ?os3 ''/dev/ptmx''"
    "unlockpt_ret ?os3 (open_ret ?os3 ''/dev/ptmx'') = 0"
    "ptsname_ret ?os3 (open_ret ?os3 ''/dev/ptmx'') = Some ''/dev/pts/3''"
    by (simp_all add: os0_def)
  note t1 = child_failure_is_terminal [OF h1, of "Some ''/system/bin/sh''" "Some ''-''" None 5 proc0
      None None 0 0]
  note t2 = child_failure_is_terminal [OF h2, of "Some ''/system/bin/sh''" "Some ''-''" None 5 proc0
      None None 0 0]
  note t3 = child_failure_is_terminal [OF h3, of None None None 5 proc0
      "Some ''10.0.0.1''" "Some ''60001''" 0 0]
  have a: "fst (create_subprocess ?os1 (Some ''/system/bin/sh'') (Some ''-'') None 5 proc0) = Exits 255"
    using t1 by (simp add: os0_def)
  have b: "fst (create_subprocess ?os2 (Some ''/system/bin/sh'') (Some ''-'') None 5 proc0) = Exits 255"
    "last (trace (snd (create_subprocess ?os2 (Some ''/system/bin/sh'') (Some ''-'') None 5 proc0))) =
       Exit (- 1)"
    using t2 by (simp_all add: os0_def)
  have c: "fst (create_mosh_client ?os3 (Some ''10.0.0.1'') (Some ''60001'') 0 5 proc0) = Exits 1"
    using t3 by (simp add: os0_def)
  note t4 = child_failure_is_terminal [OF h3, of None None None 5 proc0
      None "Some ''60001''" 0 0]
  have d: "fst (create_mosh_client ?os3 None (Some ''60001'') 0 5 proc0) = Undefined"
    using t4 by (simp add: os0_def)
  show ?thesis using a b c d by simp
qed

section \<open>Resize: a failure is silent\<close>

text \<open>
  C4, as amended. A resize on a descriptor that is closed or invalid makes the
  \<open>ioctl\<close> fail with (-1), and the caller learns nothing of it: both functions are
  \<open>void\<close>, discard the result of \<open>ioctl\<close>, return normally and leave no exception
  pending.
\<close>

theorem resize_is_silent:
  assumes "find_class_ok jni ''java/io/FileDescriptor''" and "pending s = None"
    and "fds s fd = None"
  shows "fst (sys_ioctl_TIOCSWINSZ os fd sz s) = - 1 \<and>
         Java_org_mosh_MoshClient_setPtyWindowSize jni os (Some fd) row col xpixel ypixel s =
           (Returns (),
            log (Ioctl_TIOCSWINSZ fd
                   \<lparr>ws_row = word_of_int row, ws_col = word_of_int col,
                    ws_xpixel = word_of_int xpixel, ws_ypixel = word_of_int ypixel\<rparr>) s) \<and>
         Java_com_google_ase_Exec_setPtyWindowSize jni os (Some fd) row col xpixel ypixel s =
           (Returns (),
            log (Ioctl_TIOCSWINSZ fd
                   \<lparr>ws_row = word_of_int row, ws_col = word_of_int col,
                    ws_xpixel = word_of_int xpixel, ws_ypixel = word_of_int ypixel\<rparr>) s) \<and>
         pending (snd (Java_org_mosh_MoshClient_setPtyWindowSize jni os (Some fd)
                         row col xpixel ypixel s)) = None \<and>
         pending (snd (Java_com_google_ase_Exec_setPtyWindowSize jni os (Some fd)
                         row col xpixel ypixel s)) = None"
  using assms setPtyWindowSize_result [OF assms(1,2), of os fd row col xpixel ypixel]
  by (simp add: sys_ioctl_TIOCSWINSZ_def log_def)

theorem resize_is_silent_witness:
  "Java_org_mosh_MoshClient_setPtyWindowSize jni0 os0 (Some 9) 24 80 0 0 proc0 =
     (Returns (),
      log (Ioctl_TIOCSWINSZ 9 \<lparr>ws_row = 24, ws_col = 80, ws_xpixel = 0, ws_ypixel = 0\<rparr>) proc0) \<and>
   Java_com_google_ase_Exec_setPtyWindowSize jni0 os0 (Some (- 1)) 24 80 0 0 proc0 =
     (Returns (),
      log (Ioctl_TIOCSWINSZ (- 1) \<lparr>ws_row = 24, ws_col = 80, ws_xpixel = 0, ws_ypixel = 0\<rparr>) proc0)"
proof -
  have h: "find_class_ok jni0 ''java/io/FileDescriptor''" "pending proc0 = None"
    by (simp_all add: jni0_def proc0_def)
  have c: "fds proc0 9 = None" "fds proc0 (- 1) = None"
    by (simp_all add: proc0_def)
  note t1 = resize_is_silent [OF h c(1), of os0
      "\<lparr>ws_row = 24, ws_col = 80, ws_xpixel = 0, ws_ypixel = 0\<rparr>" 24 80 0 0]
  note t2 = resize_is_silent [OF h c(2), of os0
      "\<lparr>ws_row = 24, ws_col = 80, ws_xpixel = 0, ws_ypixel = 0\<rparr>" 24 80 0 0]
  show ?thesis using t1 t2 by simp
qed

text \<open>
  C4 as stated fails: no failure indicator is returned. What the caller gets for
  a descriptor on which \<open>ioctl\<close> fails is what it gets for one on which it succeeds.
\<close>

theorem resize_is_silent_counterexample:
  "fst (sys_ioctl_TIOCSWINSZ os0 9 \<lparr>ws_row = 24, ws_col = 80, ws_xpixel = 0, ws_ypixel = 0\<rparr> proc0)
     = - 1 \<and>
   fst (sys_ioctl_TIOCSWINSZ os0 1 \<lparr>ws_row = 24, ws_col = 80, ws_xpixel = 0, ws_ypixel = 0\<rparr> proc0)
     = 0 \<and>
   fst (Java_org_mosh_MoshClient_setPtyWindowSize jni0 os0 (Some 9) 24 80 0 0 proc0) =
     fst (Java_org_mosh_MoshClient_setPtyWindowSize jni0 os0 (Some 1) 24 80 0 0 proc0) \<and>
   fst (Java_com_google_ase_Exec_setPtyWindowSize jni0 os0 (Some 9) 24 80 0 0 proc0) =
     fst (Java_com_google_ase_Exec_setPtyWindowSize jni0 os0 (Some 1) 24 80 0 0 proc0) \<and>
   pending (snd (Java_org_mosh_MoshClient_setPtyWindowSize jni0 os0 (Some 9) 24 80 0 0 proc0)) =
     pending (snd (Java_org_mosh_MoshClient_setPtyWindowSize jni0 os0 (Some 1) 24 80 0 0 proc0))"
proof -
  have h: "find_class_ok jni0 ''java/io/FileDescriptor''" "pending proc0 = None"
    by (simp_all add: jni0_def proc0_def)
  note r = setPtyWindowSize_result [OF h]
  have a: "fst (sys_ioctl_TIOCSWINSZ os0 9
      \<lparr>ws_row = 24, ws_col = 80, ws_xpixel = 0, ws_ypixel = 0\<rparr> proc0) = - 1"
    "fst (sys_ioctl_TIOCSWINSZ os0 1
      \<lparr>ws_row = 24, ws_col = 80, ws_xpixel = 0, ws_ypixel = 0\<rparr> proc0) = 0"
    by (simp_all add: sys_ioctl_TIOCSWINSZ_def proc0_def os0_def)
  show ?thesis using a by (simp add: r log_def)
qed

section \<open>Spawn: the steps of the child\<close>

text \<open>
  C5, as amended. In the child of a successful spawn the calls come in this
  order: \<open>setsid\<close> (after which the session id of the child is its own process
  id), \<open>open\<close> of the slave device by its name, \<open>dup2\<close> onto 0, 1 and 2, \<open>close\<close> of the
  master descriptor, and then the target: \<open>create_subprocess\<close> replaces the process
  image with \<open>execl(cmd, cmd, arg0, arg1, NULL)\<close>, whereas \<open>create_mosh_client\<close>, which
  first names the process with \<open>prctl\<close>, calls \<open>mosh_client_main\<close> in the same
  process image with the arguments \<open>mosh-client\<close>, \<open>ip\<close>, \<open>port\<close>, and calls
  \<open>_exit(1)\<close> when it returns. \<open>create_mosh_client\<close> reaches that call for an \<open>ip\<close>
  and a \<open>port\<close> that are not null: a null one is written to \<open>std::cerr\<close> after the
  \<open>close\<close>, which is undefined.
\<close>

theorem child_steps_in_order:
  assumes "fork_ret os = 0"
    and "0 \<le> open_ret os ''/dev/ptmx''"
    and "unlockpt_ret os (open_ret os ''/dev/ptmx'') = 0"
    and "ptsname_ret os (open_ret os ''/dev/ptmx'') = Some devname"
    and "0 \<le> open_ret os devname"
    and "child_pid os \<noteq> pgid s"
  shows
    "(grantpt_ret os (open_ret os ''/dev/ptmx'') = 0 \<longrightarrow>
        calls_since s (snd (create_subprocess os cmd arg0 arg1 procId s)) =
          [Open ''/dev/ptmx'', Fcntl_SETFD_CLOEXEC (open_ret os ''/dev/ptmx''),
           Grantpt (open_ret os ''/dev/ptmx''), Unlockpt (open_ret os ''/dev/ptmx''),
           Ptsname (open_ret os ''/dev/ptmx''), Fork,
           Setsid, Open devname,
           Dup2 (open_ret os devname) 0, Dup2 (open_ret os devname) 1,
           Dup2 (open_ret os devname) 2, Close (open_ret os ''/dev/ptmx''),
           Execl cmd (takeWhile (\<lambda>a. a \<noteq> None) [cmd, arg0, arg1])] @
          (if cmd = None \<or> execl_fails os cmd then [Exit (- 1)] else []) \<and>
        fst (create_subprocess os cmd arg0 arg1 procId s) =
          (if cmd = None \<or> execl_fails os cmd then Exits 255
           else Execs cmd (takeWhile (\<lambda>a. a \<noteq> None) [cmd, arg0, arg1])) \<and>
        pid (snd (create_subprocess os cmd arg0 arg1 procId s)) = child_pid os \<and>
        sid (snd (create_subprocess os cmd arg0 arg1 procId s)) = child_pid os) \<and>
     (length devname < 32 \<longrightarrow>
        calls_since s (snd (create_mosh_client os ip port pPtm procId s)) =
          [Open ''/dev/ptmx'', Fcntl_SETFD_CLOEXEC (open_ret os ''/dev/ptmx''),
           Unlockpt (open_ret os ''/dev/ptmx''), Ptsname_r (open_ret os ''/dev/ptmx''), Fork,
           Prctl_SET_NAME ''MoshClient'', Setsid, Open devname,
           Dup2 (open_ret os devname) 0, Dup2 (open_ret os devname) 1,
           Dup2 (open_ret os devname) 2, Close (open_ret os ''/dev/ptmx'')] @
          (if ip = None \<or> port = None then []
           else Mosh_client_main [Some ''mosh-client'', ip, port] #
                (case mosh_client_main_ret os [Some ''mosh-client'', ip, port] of
                   None \<Rightarrow> [] | Some r \<Rightarrow> [Underscore_exit 1])) \<and>
        fst (create_mosh_client os ip port pPtm procId s) =
          (if ip = None \<or> port = None then Undefined
           else (case mosh_client_main_ret os [Some ''mosh-client'', ip, port] of
                   None \<Rightarrow> Never_returns | Some r \<Rightarrow> Exits 1)) \<and>
        pid (snd (create_mosh_client os ip port pPtm procId s)) = child_pid os \<and>
        sid (snd (create_mosh_client os ip port pPtm procId s)) = child_pid os)"
proof (intro conjI impI)
  assume g: "grantpt_ret os (open_ret os ''/dev/ptmx'') = 0"
  note p = create_subprocess_pty_ok [OF assms(2) g assms(3) assms(4), of s]
  note e = create_subprocess_forked [OF p, of cmd arg0 arg1 procId]
  note st = create_subprocess_pty_state [OF p]
  have "trace (snd (create_subprocess os cmd arg0 arg1 procId s)) = trace s @
          ([Open ''/dev/ptmx'', Fcntl_SETFD_CLOEXEC (open_ret os ''/dev/ptmx''),
           Grantpt (open_ret os ''/dev/ptmx''), Unlockpt (open_ret os ''/dev/ptmx''),
           Ptsname (open_ret os ''/dev/ptmx''), Fork,
           Setsid, Open devname,
           Dup2 (open_ret os devname) 0, Dup2 (open_ret os devname) 1,
           Dup2 (open_ret os devname) 2, Close (open_ret os ''/dev/ptmx''),
           Execl cmd (takeWhile (\<lambda>a. a \<noteq> None) [cmd, arg0, arg1])] @
          (if cmd = None \<or> execl_fails os cmd then [Exit (- 1)] else []))"
    using assms(1,5) by (simp add: e create_subprocess_child_trace sys_fork_simps st)
  then show "calls_since s (snd (create_subprocess os cmd arg0 arg1 procId s)) =
          [Open ''/dev/ptmx'', Fcntl_SETFD_CLOEXEC (open_ret os ''/dev/ptmx''),
           Grantpt (open_ret os ''/dev/ptmx''), Unlockpt (open_ret os ''/dev/ptmx''),
           Ptsname (open_ret os ''/dev/ptmx''), Fork,
           Setsid, Open devname,
           Dup2 (open_ret os devname) 0, Dup2 (open_ret os devname) 1,
           Dup2 (open_ret os devname) 2, Close (open_ret os ''/dev/ptmx''),
           Execl cmd (takeWhile (\<lambda>a. a \<noteq> None) [cmd, arg0, arg1])] @
          (if cmd = None \<or> execl_fails os cmd then [Exit (- 1)] else [])"
    by (rule calls_since_append)
  show "fst (create_subprocess os cmd arg0 arg1 procId s) =
          (if cmd = None \<or> execl_fails os cmd then Exits 255
           else Execs cmd (takeWhile (\<lambda>a. a \<noteq> None) [cmd, arg0, arg1]))"
    using assms(1,5) by (simp add: e create_subprocess_child_fst)
  show "pid (snd (create_subprocess os cmd arg0 arg1 procId s)) = child_pid os"
    using assms(1) by (simp add: e create_subprocess_child_ids sys_fork_simps)
  show "sid (snd (create_subprocess os cmd arg0 arg1 procId s)) = child_pid os"
    using assms(1,6) by (simp add: e create_subprocess_child_ids sys_fork_simps st)
next
  assume l: "length devname < 32"
  note p = create_mosh_client_pty_ok [OF assms(2) assms(3) assms(4) l, of s]
  note e = create_mosh_client_forked [OF p, of ip port pPtm procId]
  note st = create_mosh_client_pty_state [OF p]
  have "trace (snd (create_mosh_client os ip port pPtm procId s)) = trace s @
          ([Open ''/dev/ptmx'', Fcntl_SETFD_CLOEXEC (open_ret os ''/dev/ptmx''),
           Unlockpt (open_ret os ''/dev/ptmx''), Ptsname_r (open_ret os ''/dev/ptmx''), Fork,
           Prctl_SET_NAME ''MoshClient'', Setsid, Open devname,
           Dup2 (open_ret os devname) 0, Dup2 (open_ret os devname) 1,
           Dup2 (open_ret os devname) 2, Close (open_ret os ''/dev/ptmx'')] @
          (if ip = None \<or> port = None then []
           else Mosh_client_main [Some ''mosh-client'', ip, port] #
                (case mosh_client_main_ret os [Some ''mosh-client'', ip, port] of
                   None \<Rightarrow> [] | Some r \<Rightarrow> [Underscore_exit 1])))"
    using assms(1,5) by (simp add: e create_mosh_client_child_trace sys_fork_simps st)
  then show "calls_since s (snd (create_mosh_client os ip port pPtm procId s)) =
          [Open ''/dev/ptmx'', Fcntl_SETFD_CLOEXEC (open_ret os ''/dev/ptmx''),
           Unlockpt (open_ret os ''/dev/ptmx''), Ptsname_r (open_ret os ''/dev/ptmx''), Fork,
           Prctl_SET_NAME ''MoshClient'', Setsid, Open devname,
           Dup2 (open_ret os devname) 0, Dup2 (open_ret os devname) 1,
           Dup2 (open_ret os devname) 2, Close (open_ret os ''/dev/ptmx'')] @
          (if ip = None \<or> port = None then []
           else Mosh_client_main [Some ''mosh-client'', ip, port] #
                (case mosh_client_main_ret os [Some ''mosh-client'', ip, port] of
                   None \<Rightarrow> [] | Some r \<Rightarrow> [Underscore_exit 1]))"
    by (rule calls_since_append)
  show "fst (create_mosh_client os ip port pPtm procId s) =
          (if ip = None \<or> port = None then Undefined
           else (case mosh_client_main_ret os [Some ''mosh-client'', ip, port] of
                   None \<Rightarrow> Never_returns | Some r \<Rightarrow> Exits 1))"
    using assms(1,5) by (simp add: e create_mosh_client_child_fst)
  show "pid (snd (create_mosh_client os ip port pPtm procId s)) = child_pid os"
    using assms(1) by (simp add: e create_mosh_client_child_ids sys_fork_simps)
  show "sid (snd (create_mosh_client os ip port pPtm procId s)) = child_pid os"
    using assms(1,6) by (simp add: e create_mosh_client_child_ids sys_fork_simps st)
qed

theorem child_steps_in_order_witness:
  "calls_since proc0 (snd (create_subprocess (os0\<lparr>fork_ret := 0\<rparr>)
      (Some ''/system/bin/sh'') (Some ''-'') None 5 proc0)) =
     [Open ''/dev/ptmx'', Fcntl_SETFD_CLOEXEC 7, Grantpt 7, Unlockpt 7, Ptsname 7, Fork,
      Setsid, Open ''/dev/pts/3'', Dup2 8 0, Dup2 8 1, Dup2 8 2, Close 7,
      Execl (Some ''/system/bin/sh'') [Some ''/system/bin/sh'', Some ''-'']] \<and>
   fst (create_subprocess (os0\<lparr>fork_ret := 0\<rparr>)
      (Some ''/system/bin/sh'') (Some ''-'') None 5 proc0) =
     Execs (Some ''/system/bin/sh'') [Some ''/system/bin/sh'', Some ''-''] \<and>
   sid (snd (create_subprocess (os0\<lparr>fork_ret := 0\<rparr>)
      (Some ''/system/bin/sh'') (Some ''-'') None 5 proc0)) = 4242 \<and>
   sid (snd (create_mosh_client (os0\<lparr>fork_ret := 0\<rparr>)
      (Some ''10.0.0.1'') (Some ''60001'') 0 5 proc0)) = 4242"
proof -
  let ?os = "os0\<lparr>fork_ret := 0\<rparr>"
  have h: "fork_ret ?os = 0" "0 \<le> open_ret ?os ''/dev/ptmx''"
    "unlockpt_ret ?os (open_ret ?os ''/dev/ptmx'') = 0"
    "ptsname_ret ?os (open_ret ?os ''/dev/ptmx'') = Some ''/dev/pts/3''"
    "0 \<le> open_ret ?os ''/dev/pts/3''"
    "child_pid ?os \<noteq> pgid proc0"
    by (simp_all add: os0_def proc0_def)
  note t = child_steps_in_order [OF h, of "Some ''/system/bin/sh''" "Some ''-''" None 5
      "Some ''10.0.0.1''" "Some ''60001''" 0]
  show ?thesis using t by (simp add: os0_def)
qed

text \<open>
  C5 as stated fails for \<open>create_mosh_client\<close>: its child never replaces its
  process image. After \<open>close\<close> it calls \<open>mosh_client_main\<close> and ends with \<open>_exit(1)\<close>.
\<close>

theorem child_steps_in_order_counterexample:
  "calls_since proc0 (snd (create_mosh_client (os0\<lparr>fork_ret := 0\<rparr>)
      (Some ''10.0.0.1'') (Some ''60001'') 0 5 proc0)) =
     [Open ''/dev/ptmx'', Fcntl_SETFD_CLOEXEC 7, Unlockpt 7, Ptsname_r 7, Fork,
      Prctl_SET_NAME ''MoshClient'', Setsid, Open ''/dev/pts/3'',
      Dup2 8 0, Dup2 8 1, Dup2 8 2, Close 7,
      Mosh_client_main [Some ''mosh-client'', Some ''10.0.0.1'', Some ''60001''],
      Underscore_exit 1] \<and>
   fst (create_mosh_client (os0\<lparr>fork_ret := 0\<rparr>)
      (Some ''10.0.0.1'') (Some ''60001'') 0 5 proc0) = Exits 1"
proof -
  let ?os = "os0\<lparr>fork_ret := 0\<rparr>"
  have p: "fst (create_mosh_client_pty ?os proc0) = Some (open_ret ?os ''/dev/ptmx'', ''/dev/pts/3'')"
    by (rule create_mosh_client_pty_ok) (simp_all add: os0_def)
  note e = create_mosh_client_forked [OF p, of "Some ''10.0.0.1''" "Some ''60001''" 0 5]
  note st = create_mosh_client_pty_state [OF p]
  have "trace (snd (create_mosh_client ?os (Some ''10.0.0.1'') (Some ''60001'') 0 5 proc0)) =
     trace proc0 @
     [Open ''/dev/ptmx'', Fcntl_SETFD_CLOEXEC 7, Unlockpt 7, Ptsname_r 7, Fork,
      Prctl_SET_NAME ''MoshClient'', Setsid, Open ''/dev/pts/3'',
      Dup2 8 0, Dup2 8 1, Dup2 8 2, Close 7,
      Mosh_client_main [Some ''mosh-client'', Some ''10.0.0.1'', Some ''60001''],
      Underscore_exit 1]"
    by (simp add: e create_mosh_client_child_trace sys_fork_simps st) (simp add: os0_def)
  then have "calls_since proc0
      (snd (create_mosh_client ?os (Some ''10.0.0.1'') (Some ''60001'') 0 5 proc0)) =
     [Open ''/dev/ptmx'', Fcntl_SETFD_CLOEXEC 7, Unlockpt 7, Ptsname_r 7, Fork,
      Prctl_SET_NAME ''MoshClient'', Setsid, Open ''/dev/pts/3'',
      Dup2 8 0, Dup2 8 1, Dup2 8 2, Close 7,
      Mosh_client_main [Some ''mosh-client'', Some ''10.0.0.1'', Some ''60001''],
      Underscore_exit 1]"
    by (rule calls_since_append)
  moreover have "fst (create_mosh_client ?os (Some ''10.0.0.1'') (Some ''60001'') 0 5 proc0) = Exits 1"
    by (simp add: e create_mosh_client_child_fst) (simp add: os0_def)
  ultimately show ?thesis by simp
qed

section \<open>Spawn: the allocation of the pseudo-terminal\<close>

text \<open>
  C6, as amended. The allocation of the pseudo-terminal opens \<open>/dev/ptmx\<close>, asks for
  close-on-exec on the master descriptor, grants (in \<open>create_subprocess\<close> only) and
  unlocks the slave device, looks up its name, and yields the master descriptor
  with that name. It fails exactly when the open fails, when \<open>grantpt\<close> (in
  \<open>create_subprocess\<close> only) or \<open>unlockpt\<close> fails, or when the name lookup fails:
  \<open>ptsname\<close> returns null, or \<open>ptsname_r\<close> fails or the name does not fit into 32
  bytes.
\<close>

theorem pty_allocation:
  "(fst (create_subprocess_pty os s) = None \<longleftrightarrow>
      (open_ret os ''/dev/ptmx'' < 0 \<or>
       grantpt_ret os (open_ret os ''/dev/ptmx'') \<noteq> 0 \<or>
       unlockpt_ret os (open_ret os ''/dev/ptmx'') \<noteq> 0 \<or>
       ptsname_ret os (open_ret os ''/dev/ptmx'') = None)) \<and>
   (fst (create_mosh_client_pty os s) = None \<longleftrightarrow>
      (open_ret os ''/dev/ptmx'' < 0 \<or>
       unlockpt_ret os (open_ret os ''/dev/ptmx'') \<noteq> 0 \<or>
       (case ptsname_ret os (open_ret os ''/dev/ptmx'') of
          None \<Rightarrow> True | Some name \<Rightarrow> 32 \<le> length name))) \<and>
   (\<forall>ptm devname. fst (create_subprocess_pty os s) = Some (ptm, devname) \<longrightarrow>
      ptm = open_ret os ''/dev/ptmx'' \<and> 0 \<le> ptm \<and> ptsname_ret os ptm = Some devname \<and>
      snd (create_subprocess_pty os s) =
        s\<lparr>fds := (fds s)(ptm \<mapsto> ''/dev/ptmx''), cloexec := insert ptm (cloexec s),
          trace := trace s @ [Open ''/dev/ptmx'', Fcntl_SETFD_CLOEXEC ptm, Grantpt ptm,
                              Unlockpt ptm, Ptsname ptm]\<rparr>) \<and>
   (\<forall>ptm devname. fst (create_mosh_client_pty os s) = Some (ptm, devname) \<longrightarrow>
      ptm = open_ret os ''/dev/ptmx'' \<and> 0 \<le> ptm \<and> ptsname_ret os ptm = Some devname \<and>
      length devname < 32 \<and>
      snd (create_mosh_client_pty os s) =
        s\<lparr>fds := (fds s)(ptm \<mapsto> ''/dev/ptmx''), cloexec := insert ptm (cloexec s),
          trace := trace s @ [Open ''/dev/ptmx'', Fcntl_SETFD_CLOEXEC ptm,
                              Unlockpt ptm, Ptsname_r ptm]\<rparr>)"
  using create_subprocess_pty_None [of os s] create_mosh_client_pty_None [of os s]
    create_subprocess_pty_Some [of os s] create_mosh_client_pty_Some [of os s]
  by blast

theorem pty_allocation_witness:
  "fst (create_subprocess_pty os0 proc0) = Some (7, ''/dev/pts/3'') \<and>
   trace (snd (create_subprocess_pty os0 proc0)) =
     [Open ''/dev/ptmx'', Fcntl_SETFD_CLOEXEC 7, Grantpt 7, Unlockpt 7, Ptsname 7] \<and>
   fst (create_mosh_client_pty os0 proc0) = Some (7, ''/dev/pts/3'') \<and>
   trace (snd (create_mosh_client_pty os0 proc0)) =
     [Open ''/dev/ptmx'', Fcntl_SETFD_CLOEXEC 7, Unlockpt 7, Ptsname_r 7] \<and>
   fst (create_subprocess_pty (os0\<lparr>grantpt_ret := (\<lambda>_. - 1)\<rparr>) proc0) = None \<and>
   fst (create_mosh_client_pty (os0\<lparr>open_ret := (\<lambda>_. - 1)\<rparr>) proc0) = None"
proof -
  note t = pty_allocation [of os0 proc0]
  have n1: "fst (create_subprocess_pty os0 proc0) \<noteq> None"
    and n2: "fst (create_mosh_client_pty os0 proc0) \<noteq> None"
    using t by (simp_all add: os0_def)
  obtain p d where pd: "fst (create_subprocess_pty os0 proc0) = Some (p, d)"
    using n1 by (cases "fst (create_subprocess_pty os0 proc0)") auto
  obtain p' d' where pd': "fst (create_mosh_client_pty os0 proc0) = Some (p', d')"
    using n2 by (cases "fst (create_mosh_client_pty os0 proc0)") auto
  from t pd have a: "p = 7 \<and> d = ''/dev/pts/3'' \<and>
      trace (snd (create_subprocess_pty os0 proc0)) =
        [Open ''/dev/ptmx'', Fcntl_SETFD_CLOEXEC 7, Grantpt 7, Unlockpt 7, Ptsname 7]"
    by (auto simp add: os0_def proc0_def)
  from t pd' have b: "p' = 7 \<and> d' = ''/dev/pts/3'' \<and>
      trace (snd (create_mosh_client_pty os0 proc0)) =
        [Open ''/dev/ptmx'', Fcntl_SETFD_CLOEXEC 7, Unlockpt 7, Ptsname_r 7]"
    by (auto simp add: os0_def proc0_def)
  have c: "fst (create_subprocess_pty (os0\<lparr>grantpt_ret := (\<lambda>_. - 1)\<rparr>) proc0) = None"
    using pty_allocation [of "os0\<lparr>grantpt_ret := (\<lambda>_. - 1)\<rparr>" proc0] by (simp add: os0_def)
  have e: "fst (create_mosh_client_pty (os0\<lparr>open_ret := (\<lambda>_. - 1)\<rparr>) proc0) = None"
    using pty_allocation [of "os0\<lparr>open_ret := (\<lambda>_. - 1)\<rparr>" proc0] by (simp add: os0_def)
  show ?thesis using pd pd' a b c e by simp
qed

text \<open>
  C6 as stated fails: with the device opened, granted and unlocked, a failing
  name lookup still makes the spawn report failure; and \<open>create_mosh_client\<close> never
  calls \<open>grantpt\<close>.
\<close>

theorem pty_allocation_counterexample:
  "\<not> (fst (create_subprocess_pty (os0\<lparr>ptsname_ret := (\<lambda>_. None)\<rparr>) proc0) = None \<longleftrightarrow>
        (open_ret (os0\<lparr>ptsname_ret := (\<lambda>_. None)\<rparr>) ''/dev/ptmx'' < 0 \<or>
         grantpt_ret (os0\<lparr>ptsname_ret := (\<lambda>_. None)\<rparr>) 7 \<noteq> 0 \<or>
         unlockpt_ret (os0\<lparr>ptsname_ret := (\<lambda>_. None)\<rparr>) 7 \<noteq> 0)) \<and>
   fst (create_subprocess (os0\<lparr>ptsname_ret := (\<lambda>_. None)\<rparr>) None None None 5 proc0) =
     Returns (- 1, 5) \<and>
   calls_since proc0 (snd (create_mosh_client_pty os0 proc0)) =
     [Open ''/dev/ptmx'', Fcntl_SETFD_CLOEXEC 7, Unlockpt 7, Ptsname_r 7]"
proof -
  let ?os = "os0\<lparr>ptsname_ret := (\<lambda>_. None)\<rparr>"
  have n: "fst (create_subprocess_pty ?os proc0) = None"
    by (simp add: create_subprocess_pty_None os0_def)
  have a: "\<not> (open_ret ?os ''/dev/ptmx'' < 0 \<or> grantpt_ret ?os 7 \<noteq> 0 \<or> unlockpt_ret ?os 7 \<noteq> 0)"
    by (simp add: os0_def)
  have b: "fst (create_subprocess ?os None None None 5 proc0) = Returns (- 1, 5)"
    by (simp add: create_subprocess_pty_failed [OF n])
  have p: "fst (create_mosh_client_pty os0 proc0) = Some (open_ret os0 ''/dev/ptmx'', ''/dev/pts/3'')"
    by (rule create_mosh_client_pty_ok) (simp_all add: os0_def)
  have "trace (snd (create_mosh_client_pty os0 proc0)) = trace proc0 @
     [Open ''/dev/ptmx'', Fcntl_SETFD_CLOEXEC 7, Unlockpt 7, Ptsname_r 7]"
    using create_mosh_client_pty_state(1) [OF p] by (simp add: os0_def)
  then have c: "calls_since proc0 (snd (create_mosh_client_pty os0 proc0)) =
     [Open ''/dev/ptmx'', Fcntl_SETFD_CLOEXEC 7, Unlockpt 7, Ptsname_r 7]"
    by (rule calls_since_append)
  show ?thesis using n a b c by simp
qed

section \<open>Environment overrides\<close>

text \<open>
  C7. For every name and value that reach the native code as strings,
  \<open>setenv\<close> returns 0 or (-1): (-1), with the environment unchanged, for an empty
  name, a name with \<open>=\<close> in it or exhausted memory; otherwise 0, with the variable
  set in the environment table of the process. After a return of 0 every spawn,
  in the parent and in the child, runs with that variable set to that value.
\<close>

theorem setenv_override_visible:
  assumes "get_string_utf_chars_ok jni name" and "new_nothrow_ok jni name"
    and "get_string_utf_chars_ok jni value" and "new_nothrow_ok jni value"
  shows
    "fst (Java_org_mosh_MoshClient_setenv jni os (Some name) (Some value) s) =
       Returns (if name = [] \<or> CHR ''='' \<in> set name \<or> setenv_enomem os then - 1 else 0) \<and>
     environ (snd (Java_org_mosh_MoshClient_setenv jni os (Some name) (Some value) s)) =
       (if name = [] \<or> CHR ''='' \<in> set name \<or> setenv_enomem os then environ s
        else (environ s)(name \<mapsto> value)) \<and>
     (fst (Java_org_mosh_MoshClient_setenv jni os (Some name) (Some value) s) = Returns 0 \<longrightarrow>
        environ (snd (create_mosh_client os' ip port pPtm procId
          (snd (Java_org_mosh_MoshClient_setenv jni os (Some name) (Some value) s)))) name =
          Some value \<and>
        environ (snd (create_subprocess os' cmd arg0 arg1 procId
          (snd (Java_org_mosh_MoshClient_setenv jni os (Some name) (Some value) s)))) name =
          Some value)"
  by (simp add: Java_org_mosh_MoshClient_setenv_def jniGetStringNativeChars_ok [OF assms(1,2)]
      jniGetStringNativeChars_ok [OF assms(3,4)] sys_setenv_result
      create_mosh_client_environ create_subprocess_environ log_def)

theorem setenv_override_visible_witness:
  "fst (Java_org_mosh_MoshClient_setenv jni0 os0 (Some ''LANG'') (Some ''C'') proc0) = Returns 0 \<and>
   environ (snd (create_mosh_client (os0\<lparr>fork_ret := 0\<rparr>) (Some ''10.0.0.1'') (Some ''60001'') 0 5
     (snd (Java_org_mosh_MoshClient_setenv jni0 os0 (Some ''LANG'') (Some ''C'') proc0)))) ''LANG'' =
     Some ''C'' \<and>
   fst (Java_org_mosh_MoshClient_setenv jni0 os0 (Some ''A=B'') (Some ''C'') proc0) = Returns (- 1)"
proof -
  have h: "get_string_utf_chars_ok jni0 ''LANG''" "new_nothrow_ok jni0 ''LANG''"
    "get_string_utf_chars_ok jni0 ''C''" "new_nothrow_ok jni0 ''C''"
    by (simp_all add: jni0_def)
  have h': "get_string_utf_chars_ok jni0 ''A=B''" "new_nothrow_ok jni0 ''A=B''"
    by (simp_all add: jni0_def)
  note t1 = setenv_override_visible [OF h, of os0 proc0 "os0\<lparr>fork_ret := 0\<rparr>"
      "Some ''10.0.0.1''" "Some ''60001''" 0 5 None None None]
  note t2 = setenv_override_visible [OF h' h(3,4), of os0 proc0 os0 None None 0 5 None None None]
  have a: "fst (Java_org_mosh_MoshClient_setenv jni0 os0 (Some ''LANG'') (Some ''C'') proc0) =
      Returns 0"
    using t1 by (simp add: os0_def)
  have b: "fst (Java_org_mosh_MoshClient_setenv jni0 os0 (Some ''A=B'') (Some ''C'') proc0) =
      Returns (- 1)"
    using t2 by (simp add: os0_def)
  show ?thesis using t1 a b by simp
qed

section \<open>East Asian width: where the attributes are stored\<close>

text \<open>
  C8. For a region inside \<open>uBuffer\<close> the loop stores the attribute of every code
  point at the index after that code point, the value of \<open>i\<close> once \<open>U16_NEXT\<close> has
  advanced it, not at the index at which the code point starts. So nothing is
  stored at index \<open>start\<close>, where the first code point starts, and the last store
  goes to index \<open>start + len\<close>, one past the region; when \<open>attributes\<close> ends with
  the region that store is outside the array.
\<close>

theorem measure_stores_after_code_point:
  assumes "0 \<le> start" and "0 \<le> len" and "start + len \<le> int (length uBuffer)"
  shows
    "measure_loop ea eastAsian uBuffer start (start + len) [] =
       Some (stores_after ea eastAsian (code_points uBuffer start (start + len))) \<and>
     (\<forall>(b, e, c) \<in> set (code_points uBuffer start (start + len)).
        start \<le> b \<and> b < e \<and> e \<le> start + len) \<and>
     start \<notin> fst ` set (stores_after ea eastAsian (code_points uBuffer start (start + len))) \<and>
     (0 < len \<longrightarrow>
        code_points uBuffer start (start + len) \<noteq> [] \<and>
        fst (hd (code_points uBuffer start (start + len))) = start \<and>
        fst (last (stores_after ea eastAsian (code_points uBuffer start (start + len)))) =
          start + len \<and>
        (int (length attrs) \<le> start + len \<longrightarrow>
           Java_org_connectbot_util_EastAsianWidth_measure ea (Some uBuffer) start len
             (Some attrs) eastAsian = Undefined))"
proof -
  let ?cps = "code_points uBuffer start (start + len)"
  let ?f = "\<lambda>(b, e, c). (e, width_attribute eastAsian (ea c))"
  have sa: "stores_after ea eastAsian ?cps = map ?f ?cps"
    by (simp add: stores_after_def)
  have w: "measure_loop ea eastAsian uBuffer start (start + len) [] = Some (map ?f ?cps)"
    using measure_loop_writes [OF assms(1,3), of ea eastAsian "[]"] by (simp add: sa)
  have b: "\<forall>(b, e, c) \<in> set ?cps. start \<le> b \<and> b < e \<and> e \<le> start + len"
    using code_points_bounds [of _ _ _ uBuffer start "start + len"] by auto
  have n: "start \<notin> fst ` set (map ?f ?cps)"
  proof
    assume "start \<in> fst ` set (map ?f ?cps)"
    then obtain x where x: "x \<in> set ?cps" "fst (?f x) = start" by auto
    obtain b' e' c' where t: "x = (b', e', c')" by (cases x)
    from x t code_points_bounds [of b' e' c' uBuffer start "start + len"]
    show False by auto
  qed
  {
    assume l: "0 < len"
    then have lt: "start < start + len" by simp
    note cl = code_points_last [OF assms(1) lt assms(3)]
    have hd: "fst (hd ?cps) = start"
      by (rule code_points_hd [OF assms(1) lt assms(3)])
    have "last (map ?f ?cps) = ?f (last ?cps)"
      using cl by (simp add: last_map)
    then have la: "fst (last (map ?f ?cps)) = start + len"
      using cl by (simp add: split_beta)
    have inl: "last (map ?f ?cps) \<in> set (map ?f ?cps)"
      using cl by (intro last_in_set) simp
    {
      assume a: "int (length attrs) \<le> start + len"
      have "store_all attrs (map ?f ?cps) = None"
      proof (rule store_all_out_of_range)
        show "(fst (last (map ?f ?cps)), snd (last (map ?f ?cps))) \<in> set (map ?f ?cps)"
          using inl by simp
        show "\<not> (0 \<le> fst (last (map ?f ?cps)) \<and> fst (last (map ?f ?cps)) < int (length attrs))"
          using la a by simp
      qed
      then have "Java_org_connectbot_util_EastAsianWidth_measure ea (Some uBuffer) start len
             (Some attrs) eastAsian = Undefined"
        by (simp add: Java_org_connectbot_util_EastAsianWidth_measure_def w)
    }
    note this hd la cl
  }
  then show ?thesis using w b n unfolding sa by simp
qed

theorem measure_stores_after_code_point_witness:
  "measure_loop ea0 False [0x41, 0xD83D, 0xDE00, 0x4E2D] 0 4 [] = Some [(1, 0), (3, 1), (4, 1)] \<and>
   Java_org_connectbot_util_EastAsianWidth_measure ea0 (Some [0x41, 0xD83D, 0xDE00, 0x4E2D]) 0 4
     (Some [9, 9, 9, 9]) False = Undefined"
proof -
  have h: "(0::int) \<le> 0" "(0::int) \<le> 4"
    "(0::int) + 4 \<le> int (length [0x41, 0xD83D, 0xDE00, 0x4E2D :: 16 word])"
    by simp_all
  note t = measure_stores_after_code_point [OF h, of ea0 False "[9, 9, 9, 9]"]
  show ?thesis using t by (simp add: code_points_example stores_after_def ea0_def)
qed

section \<open>waitFor: a failed waitpid\<close>

text \<open>
  C9. Neither \<open>waitFor\<close> looks at what \<open>waitpid\<close> returns. When \<open>waitpid\<close> fails, the
  status word is the one the local variable held before the call, which nothing
  initialised: the result is decoded from it, and every value from 0 to 255 can
  come out, so it is neither a fixed error value nor always 0.
\<close>

theorem waitFor_unchecked_waitpid:
  assumes "waitpid_ret os procId = Wait_failed"
  shows "fst (Java_org_mosh_MoshClient_waitFor os procId status s) =
           Returns (if WIFEXITED status then WEXITSTATUS status else 0) \<and>
         fst (Java_com_google_ase_Exec_waitFor os procId status s) =
           Returns (if WIFEXITED status then WEXITSTATUS status else 0) \<and>
         (\<forall>n. 0 \<le> n \<and> n \<le> 255 \<longrightarrow>
            fst (Java_org_mosh_MoshClient_waitFor os procId (push_bit 8 n) s) = Returns n \<and>
            fst (Java_com_google_ase_Exec_waitFor os procId (push_bit 8 n) s) = Returns n)"
  using assms WEXITSTATUS_push
  by (simp add: Java_org_mosh_MoshClient_waitFor_def Java_com_google_ase_Exec_waitFor_def
      sys_waitpid_def)

theorem waitFor_unchecked_waitpid_witness:
  "waitpid_ret (os0\<lparr>waitpid_ret := (\<lambda>_. Wait_failed)\<rparr>) 999 = Wait_failed \<and>
   fst (Java_org_mosh_MoshClient_waitFor
          (os0\<lparr>waitpid_ret := (\<lambda>_. Wait_failed)\<rparr>) 999 0x2A00 proc0) = Returns 42 \<and>
   fst (Java_com_google_ase_Exec_waitFor
          (os0\<lparr>waitpid_ret := (\<lambda>_. Wait_failed)\<rparr>) 999 0x2A00 proc0) = Returns 42 \<and>
   fst (Java_org_mosh_MoshClient_waitFor
          (os0\<lparr>waitpid_ret := (\<lambda>_. Wait_failed)\<rparr>) 999 (push_bit 8 7) proc0) = Returns 7"
proof -
  let ?os = "os0\<lparr>waitpid_ret := (\<lambda>_. Wait_failed)\<rparr>"
  have h: "waitpid_ret ?os 999 = Wait_failed" by simp
  note t = waitFor_unchecked_waitpid [OF h, of "0x2A00" proc0]
  from t have a: "\<forall>n. 0 \<le> n \<and> n \<le> 255 \<longrightarrow>
      fst (Java_org_mosh_MoshClient_waitFor ?os 999 (push_bit 8 n) proc0) = Returns n"
    by blast
  have b: "fst (Java_org_mosh_MoshClient_waitFor ?os 999 (push_bit 8 7) proc0) = Returns 7"
    using a [rule_format, of 7] by simp
  from t have c: "fst (Java_org_mosh_MoshClient_waitFor ?os 999 0x2A00 proc0) = Returns 42"
    "fst (Java_com_google_ase_Exec_waitFor ?os 999 0x2A00 proc0) = Returns 42"
    by (simp_all add: WIFEXITED_def WTERMSIG_eq WEXITSTATUS_eq)
  show ?thesis using h b c by simp
qed

section \<open>Spawn: the master descriptor after a failure\<close>

text \<open>
  C10. When \<open>/dev/ptmx\<close> was opened and the granting, the unlocking or the naming
  of the slave device then fails, the spawn returns the failure value (-1)
  without a \<open>close\<close>: the master descriptor stays in the descriptor table of the
  calling process, which holds one descriptor more than before.
\<close>

theorem failed_spawn_leaks_master:
  assumes "0 \<le> open_ret os ''/dev/ptmx''"
  shows
    "(grantpt_ret os (open_ret os ''/dev/ptmx'') \<noteq> 0 \<or>
      unlockpt_ret os (open_ret os ''/dev/ptmx'') \<noteq> 0 \<or>
      ptsname_ret os (open_ret os ''/dev/ptmx'') = None \<longrightarrow>
        fst (create_subprocess os cmd arg0 arg1 procId s) = Returns (- 1, procId) \<and>
        fds (snd (create_subprocess os cmd arg0 arg1 procId s)) =
          (fds s)(open_ret os ''/dev/ptmx'' \<mapsto> ''/dev/ptmx'') \<and>
        (\<forall>fd. Close fd \<notin> set (calls_since s (snd (create_subprocess os cmd arg0 arg1 procId s)))) \<and>
        (finite (dom (fds s)) \<and> fds s (open_ret os ''/dev/ptmx'') = None \<longrightarrow>
           card (dom (fds (snd (create_subprocess os cmd arg0 arg1 procId s)))) =
             Suc (card (dom (fds s))))) \<and>
     (unlockpt_ret os (open_ret os ''/dev/ptmx'') \<noteq> 0 \<or>
      (case ptsname_ret os (open_ret os ''/dev/ptmx'') of
         None \<Rightarrow> True | Some name \<Rightarrow> 32 \<le> length name) \<longrightarrow>
        fst (create_mosh_client os ip port ptm procId s) = Returns (- 1, procId) \<and>
        fds (snd (create_mosh_client os ip port ptm procId s)) =
          (fds s)(open_ret os ''/dev/ptmx'' \<mapsto> ''/dev/ptmx'') \<and>
        (\<forall>fd. Close fd \<notin> set (calls_since s (snd (create_mosh_client os ip port ptm procId s)))) \<and>
        (finite (dom (fds s)) \<and> fds s (open_ret os ''/dev/ptmx'') = None \<longrightarrow>
           card (dom (fds (snd (create_mosh_client os ip port ptm procId s)))) =
             Suc (card (dom (fds s)))))"
proof (intro conjI impI)
  assume "grantpt_ret os (open_ret os ''/dev/ptmx'') \<noteq> 0 \<or>
      unlockpt_ret os (open_ret os ''/dev/ptmx'') \<noteq> 0 \<or>
      ptsname_ret os (open_ret os ''/dev/ptmx'') = None"
  then have n: "fst (create_subprocess_pty os s) = None"
    by (simp add: create_subprocess_pty_None)
  note e = create_subprocess_pty_failed [OF n, of cmd arg0 arg1 procId]
  show "fst (create_subprocess os cmd arg0 arg1 procId s) = Returns (- 1, procId)"
    by (simp add: e)
  show f: "fds (snd (create_subprocess os cmd arg0 arg1 procId s)) =
          (fds s)(open_ret os ''/dev/ptmx'' \<mapsto> ''/dev/ptmx'')"
    using create_subprocess_pty_fds [OF assms] by (simp add: e)
  show "\<forall>fd. Close fd \<notin> set (calls_since s (snd (create_subprocess os cmd arg0 arg1 procId s)))"
    using create_subprocess_pty_fds [OF assms] by (simp add: e)
  assume "finite (dom (fds s)) \<and> fds s (open_ret os ''/dev/ptmx'') = None"
  then show "card (dom (fds (snd (create_subprocess os cmd arg0 arg1 procId s)))) =
             Suc (card (dom (fds s)))"
    unfolding f by (auto simp add: domIff)
next
  assume "unlockpt_ret os (open_ret os ''/dev/ptmx'') \<noteq> 0 \<or>
      (case ptsname_ret os (open_ret os ''/dev/ptmx'') of
         None \<Rightarrow> True | Some name \<Rightarrow> 32 \<le> length name)"
  then have n: "fst (create_mosh_client_pty os s) = None"
    by (simp add: create_mosh_client_pty_None)
  note e = create_mosh_client_pty_failed [OF n, of ip port ptm procId]
  show "fst (create_mosh_client os ip port ptm procId s) = Returns (- 1, procId)"
    by (simp add: e)
  show f: "fds (snd (create_mosh_client os ip port ptm procId s)) =
          (fds s)(open_ret os ''/dev/ptmx'' \<mapsto> ''/dev/ptmx'')"
    using create_mosh_client_pty_fds [OF assms] by (simp add: e)
  show "\<forall>fd. Close fd \<notin> set (calls_since s (snd (create_mosh_client os ip port ptm procId s)))"
    using create_mosh_client_pty_fds [OF assms] by (simp add: e)
  assume "finite (dom (fds s)) \<and> fds s (open_ret os ''/dev/ptmx'') = None"
  then show "card (dom (fds (snd (create_mosh_client os ip port ptm procId s)))) =
             Suc (card (dom (fds s)))"
    unfolding f by (auto simp add: domIff)
qed

theorem failed_spawn_leaks_master_witness:
  "fst (create_subprocess (os0\<lparr>unlockpt_ret := (\<lambda>_. - 1)\<rparr>) None None None 5 proc0) =
     Returns (- 1, 5) \<and>
   fds (snd (create_subprocess (os0\<lparr>unlockpt_ret := (\<lambda>_. - 1)\<rparr>) None None None 5 proc0)) 7 =
     Some ''/dev/ptmx'' \<and>
   card (dom (fds (snd (create_subprocess (os0\<lparr>unlockpt_ret := (\<lambda>_. - 1)\<rparr>)
     None None None 5 proc0)))) = 4 \<and>
   fds (snd (create_mosh_client (os0\<lparr>ptsname_ret := (\<lambda>_. None)\<rparr>) None None 0 5 proc0)) 7 =
     Some ''/dev/ptmx''"
proof -
  have o: "0 \<le> open_ret (os0\<lparr>unlockpt_ret := (\<lambda>_. - 1)\<rparr>) ''/dev/ptmx''"
    "0 \<le> open_ret (os0\<lparr>ptsname_ret := (\<lambda>_. None)\<rparr>) ''/dev/ptmx''"
    by (simp_all add: os0_def)
  have d: "dom (fds proc0) = {0, 1, 2}"
    by (auto simp add: proc0_def)
  note t1 = failed_spawn_leaks_master [OF o(1), of None None None 5 proc0 None None 0]
  note t2 = failed_spawn_leaks_master [OF o(2), of None None None 5 proc0 None None 0]
  show ?thesis using t1 t2 d by (simp add: os0_def proc0_def)
qed

end
